theory Spec2Isabelle
  imports Main "HOL-Library.Word" "HOL-Library.Signed_Division"
begin

unbundle bit_operations_syntax

section \<open>Intel ICH / SIS7012 AC97 low level routines (sc\_ich.c)\<close>

text \<open>
  The driver talks to the controller through port I/O.  What a port read returns is
  decided by the device, so the device is an oracle: \<open>hw k p\<close> is the value the
  \<open>k\<close>-th port read of a run delivers when that read addresses port \<open>p\<close>.
  The \<open>world\<close> counts the reads done so far, keeps the sequence of
  everything the driver sent out (port writes and calls into the DMA helper
  library, oldest first) and holds the memory of the buffer descriptor list,
  indexed by 32-bit entry as the code indexes \<open>table_base[]\<close>.
  The microsecond timer \<open>pds_gettimeu\<close> is an oracle of the same kind, indexed by
  the number of times it has been asked.
  \<open>pds_delay_10us\<close> and \<open>mpxplay_debugf\<close> change nothing that is modelled.
  C's \<open>unsigned int\<close>, \<open>unsigned long\<close> and \<open>uint32_t\<close> are 32 bits on the
  target (32-bit DOS) and are \<open>32 word\<close>.
\<close>

type_synonym u32 = "32 word"
type_synonym hw = "nat \<Rightarrow> u32 \<Rightarrow> u32"

datatype SIS7012_DebugVars = SIS7012_DEBUG_IOC_COUNT | SIS7012_DEBUG_BUP_COUNT | SIS7012_DEBUG_FIFO_COUNT

datatype event =
    Outb u32 u32
  | Outw u32 u32
  | Outl u32 u32
  | ClearBuf
  | FreeCardmem u32
  | PdsFreePciDev
  | PdsFreeCard

record world =
  reads :: nat
  timer_reads :: nat
  trace :: "event list"
  bdl_mem :: "nat \<Rightarrow> u32"
  g_counts :: "SIS7012_DebugVars \<Rightarrow> u32"

datatype fault = NullDeref | DivByZero

definition inb :: "hw \<Rightarrow> u32 \<Rightarrow> world \<Rightarrow> u32 \<times> world" where
  "inb h p w = (h (reads w) p AND 0xFF, w\<lparr>reads := Suc (reads w)\<rparr>)"

definition inw :: "hw \<Rightarrow> u32 \<Rightarrow> world \<Rightarrow> u32 \<times> world" where
  "inw h p w = (h (reads w) p AND 0xFFFF, w\<lparr>reads := Suc (reads w)\<rparr>)"

definition inl :: "hw \<Rightarrow> u32 \<Rightarrow> world \<Rightarrow> u32 \<times> world" where
  "inl h p w = (h (reads w) p, w\<lparr>reads := Suc (reads w)\<rparr>)"

definition emit :: "event \<Rightarrow> world \<Rightarrow> world" where
  "emit e w = w\<lparr>trace := trace w @ [e]\<rparr>"

definition outb :: "u32 \<Rightarrow> u32 \<Rightarrow> world \<Rightarrow> world" where
  "outb p d w = emit (Outb p (d AND 0xFF)) w"

definition outw :: "u32 \<Rightarrow> u32 \<Rightarrow> world \<Rightarrow> world" where
  "outw p d w = emit (Outw p (d AND 0xFFFF)) w"

definition outl :: "u32 \<Rightarrow> u32 \<Rightarrow> world \<Rightarrow> world" where
  "outl p d w = emit (Outl p d) w"

subsection \<open>Register map\<close>

datatype device_type = DEVICE_INTEL | DEVICE_INTEL_ICH4 | DEVICE_NFORCE | DEVICE_SIS

definition ICH_PO_CR_REG :: u32 where "ICH_PO_CR_REG = 0x1b"
definition ICH_PO_CR_START :: u32 where "ICH_PO_CR_START = 0x01"
definition ICH_PO_CR_RESET :: u32 where "ICH_PO_CR_RESET = 0x02"
definition ICH_PO_CR_LVBIE :: u32 where "ICH_PO_CR_LVBIE = 0x04"
definition ICH_PO_CR_FEIE :: u32 where "ICH_PO_CR_FEIE = 0x08"
definition ICH_PO_CR_IOCE :: u32 where "ICH_PO_CR_IOCE = 0x10"

definition ICH_PO_SR_REG :: "device_type \<Rightarrow> u32" where
  "ICH_PO_SR_REG dt = (if dt = DEVICE_SIS then 0x18 else 0x16)"

definition ICH_PO_SR_DCH :: u32 where "ICH_PO_SR_DCH = 0x01"
definition ICH_PO_SR_LVBCI :: u32 where "ICH_PO_SR_LVBCI = 0x04"
definition ICH_PO_SR_BCIS :: u32 where "ICH_PO_SR_BCIS = 0x08"
definition ICH_PO_SR_FIFO :: u32 where "ICH_PO_SR_FIFO = 0x10"

definition ICH_GLOB_CNT_REG :: u32 where "ICH_GLOB_CNT_REG = 0x2c"
definition ICH_PCM_20BIT :: u32 where "ICH_PCM_20BIT = 0x00400000"
definition ICH_PCM_246_MASK :: u32 where "ICH_PCM_246_MASK = 0x00300000"
definition ICH_SIS_PCM_246_MASK :: u32 where "ICH_SIS_PCM_246_MASK = 0x000000c0"

definition ICH_GLOB_STAT_REG :: u32 where "ICH_GLOB_STAT_REG = 0x30"
definition ICH_GLOB_STAT_PCR :: u32 where "ICH_GLOB_STAT_PCR = 0x00000100"
definition ICH_GLOB_STAT_RCS :: u32 where "ICH_GLOB_STAT_RCS = 0x00008000"
definition ICH_SAMPLE_CAP :: u32 where "ICH_SAMPLE_CAP = 0x00c00000"
definition ICH_SAMPLE_16_20 :: u32 where "ICH_SAMPLE_16_20 = 0x00400000"

definition ICH_PO_BDBAR_REG :: u32 where "ICH_PO_BDBAR_REG = 0x10"
definition ICH_PO_LVI_REG :: u32 where "ICH_PO_LVI_REG = 0x15"
definition ICH_PO_CIV_REG :: u32 where "ICH_PO_CIV_REG = 0x14"

definition ICH_PO_PICB_REG :: "device_type \<Rightarrow> u32" where
  "ICH_PO_PICB_REG dt = (if dt = DEVICE_SIS then 0x16 else 0x18)"

definition ICH_ACC_SEMA_REG :: u32 where "ICH_ACC_SEMA_REG = 0x34"
definition ICH_CODEC_BUSY :: u32 where "ICH_CODEC_BUSY = 0x01"
definition ICH_BD_IOC :: u32 where "ICH_BD_IOC = 0x8000"

definition ICH_DMABUF_MAX_PERIODS :: nat where "ICH_DMABUF_MAX_PERIODS = 32"
definition ICH_DMABUF_PERIODS :: nat where "ICH_DMABUF_PERIODS = 4"
definition ICH_DEFAULT_RETRY :: nat where "ICH_DEFAULT_RETRY = 1000"

subsection \<open>Device table\<close>

record pci_device_s =
  device_name :: string
  vendor_id :: "16 word"
  device_id :: "16 word"
  pci_device_type :: device_type

definition pci_device :: "string \<Rightarrow> 16 word \<Rightarrow> 16 word \<Rightarrow> device_type \<Rightarrow> pci_device_s" where
  "pci_device n v d t = \<lparr>device_name = n, vendor_id = v, device_id = d, pci_device_type = t\<rparr>"

definition ich_devices :: "pci_device_s list" where
  "ich_devices =
   [pci_device ''82801AA'' 0x8086 0x2415 DEVICE_INTEL,
    pci_device ''82901AB'' 0x8086 0x2425 DEVICE_INTEL,
    pci_device ''82801BA'' 0x8086 0x2445 DEVICE_INTEL,
    pci_device ''ICH3'' 0x8086 0x2485 DEVICE_INTEL,
    pci_device ''ICH4'' 0x8086 0x24c5 DEVICE_INTEL_ICH4,
    pci_device ''ICH5'' 0x8086 0x24d5 DEVICE_INTEL_ICH4,
    pci_device ''ESB'' 0x8086 0x25a6 DEVICE_INTEL_ICH4,
    pci_device ''ICH6'' 0x8086 0x266e DEVICE_INTEL_ICH4,
    pci_device ''ICH7'' 0x8086 0x27de DEVICE_INTEL_ICH4,
    pci_device ''ESB2'' 0x8086 0x2698 DEVICE_INTEL_ICH4,
    pci_device ''440MX'' 0x8086 0x7195 DEVICE_INTEL,
    pci_device ''SI7012'' 0x1039 0x7012 DEVICE_SIS,
    pci_device ''NFORCE'' 0x10de 0x01b1 DEVICE_NFORCE,
    pci_device ''MCP04'' 0x10de 0x003a DEVICE_NFORCE,
    pci_device ''NFORCE2'' 0x10de 0x006a DEVICE_NFORCE,
    pci_device ''CK804'' 0x10de 0x0059 DEVICE_NFORCE,
    pci_device ''CK8'' 0x10de 0x008a DEVICE_NFORCE,
    pci_device ''NFORCE3'' 0x10de 0x00da DEVICE_NFORCE,
    pci_device ''CK8S'' 0x10de 0x00ea DEVICE_NFORCE,
    pci_device ''AMD8111'' 0x1022 0x746d DEVICE_INTEL,
    pci_device ''AMD768'' 0x1022 0x7445 DEVICE_INTEL]"

text \<open>
  Modelled from the spec: the lookup \<open>pcibios_search_devices\<close> lives in the PCI
  service, which is not part of these sources.  The spec gives its contract as
  \<open>resolve(vendorId, deviceId) -> DeviceProfile | NotFound\<close>, a pure lookup against
  the static table: the first entry with both ids, or nothing.
\<close>

definition resolve :: "16 word \<Rightarrow> 16 word \<Rightarrow> pci_device_s option" where
  "resolve v d = find (\<lambda>e. vendor_id e = v \<and> device_id e = d) ich_devices"

subsection \<open>Card and host state\<close>

text \<open>
  \<open>intel_card_s\<close> as in the source.  The clock corrector is a C \<open>float\<close>; its
  type is left open (\<open>'f\<close>) and the few floating point operations the driver
  performs on it enter as parameters where they are used.
  \<open>mpxplay_audioout_info_s\<close> is declared in a header outside these sources; the
  record holds the fields this file reads or writes.  The card is owned by the
  host structure through \<open>card_private_data\<close>, \<open>None\<close> being the null pointer.
\<close>

record 'f intel_card_s =
  baseport_bm :: u32
  baseport_codec :: u32
  irq :: u32
  device_type :: device_type
  pci_dev :: "pci_device_s option"
  dm :: u32
  buffer_descriptor_list :: u32
  pcmout_buffer :: u32
  pcmout_bufsize :: u32
  period_size_bytes :: u32
  vra :: u32
  ac97_clock_detected :: u32
  ac97_clock_corrector :: 'f

record 'f mpxplay_audioout_info_s =
  freq_set :: u32
  freq_card :: u32
  chan_card :: u32
  bits_set :: u32
  bits_card :: u32
  card_wave_id :: u32
  card_infobits :: u32
  card_dmasize :: u32
  card_dma_lastgoodpos :: u32
  card_samples_per_int :: u32
  card_private_data :: "'f intel_card_s option"

subsection \<open>Low level write and read\<close>

definition snd_intel_write_8 :: "'f intel_card_s \<Rightarrow> u32 \<Rightarrow> u32 \<Rightarrow> world \<Rightarrow> world" where
  "snd_intel_write_8 crd reg data = outb (baseport_bm crd + reg) data"

definition snd_intel_write_16 :: "'f intel_card_s \<Rightarrow> u32 \<Rightarrow> u32 \<Rightarrow> world \<Rightarrow> world" where
  "snd_intel_write_16 crd reg data = outw (baseport_bm crd + reg) data"

definition snd_intel_write_32 :: "'f intel_card_s \<Rightarrow> u32 \<Rightarrow> u32 \<Rightarrow> world \<Rightarrow> world" where
  "snd_intel_write_32 crd reg data = outl (baseport_bm crd + reg) data"

definition snd_intel_read_8 :: "hw \<Rightarrow> 'f intel_card_s \<Rightarrow> u32 \<Rightarrow> world \<Rightarrow> u32 \<times> world" where
  "snd_intel_read_8 h crd reg = inb h (baseport_bm crd + reg)"

definition snd_intel_read_16 :: "hw \<Rightarrow> 'f intel_card_s \<Rightarrow> u32 \<Rightarrow> world \<Rightarrow> u32 \<times> world" where
  "snd_intel_read_16 h crd reg = inw h (baseport_bm crd + reg)"

definition snd_intel_read_32 :: "hw \<Rightarrow> 'f intel_card_s \<Rightarrow> u32 \<Rightarrow> world \<Rightarrow> u32 \<times> world" where
  "snd_intel_read_32 h crd reg = inl h (baseport_bm crd + reg)"

text \<open>
  The bounded polling loops all have the shape
  \<open>retry = N; do { if (ready) break; delay; } while (--retry);\<close>:
  the body runs with the counter at \<open>Suc n\<close>; a break leaves the counter as it is,
  otherwise it is decremented and the loop ends when it reaches 0.
\<close>

fun retry_loop :: "(world \<Rightarrow> bool \<times> world) \<Rightarrow> nat \<Rightarrow> world \<Rightarrow> nat \<times> world" where
  "retry_loop body 0 w = (0, w)"
| "retry_loop body (Suc n) w =
     (case body w of
        (True, w') \<Rightarrow> (Suc n, w')
      | (False, w') \<Rightarrow> retry_loop body n w')"

definition snd_intel_codec_ready :: "hw \<Rightarrow> 'f intel_card_s \<Rightarrow> u32 \<Rightarrow> world \<Rightarrow> nat \<times> world" where
  "snd_intel_codec_ready h crd codec0 w =
     (let codec = (if codec0 = 0 then ICH_GLOB_STAT_PCR else codec0)
      in retry_loop
           (\<lambda>w. case snd_intel_read_32 h crd ICH_GLOB_STAT_REG w of
                   (v, w1) \<Rightarrow> (v AND codec \<noteq> 0, w1))
           ICH_DEFAULT_RETRY w)"

subsection \<open>Chip close, stop, start, close\<close>

definition snd_intel_chip_close :: "'f intel_card_s \<Rightarrow> world \<Rightarrow> world" where
  "snd_intel_chip_close crd w =
     (if baseport_bm crd \<noteq> 0
      then snd_intel_write_8 crd ICH_PO_CR_REG ICH_PO_CR_RESET w
      else w)"

text \<open>
  \<open>MDma_free_cardmem\<close> and \<open>pds_free\<close> belong to the host's libraries; a call is
  recorded in the trace.
\<close>

definition INTELICH_close ::
  "'f mpxplay_audioout_info_s \<Rightarrow> world \<Rightarrow> 'f mpxplay_audioout_info_s \<times> world" where
  "INTELICH_close aui w =
     (case card_private_data aui of
        None \<Rightarrow> (aui, w)
      | Some crd \<Rightarrow>
          (let w1 = snd_intel_chip_close crd w;
               w2 = emit (FreeCardmem (dm crd)) w1;
               w3 = (if pci_dev crd \<noteq> None then emit PdsFreePciDev w2 else w2);
               w4 = emit PdsFreeCard w3
           in (aui\<lparr>card_private_data := None\<rparr>, w4)))"

text \<open>
  \<open>INTELICH_start\<close>, \<open>INTELICH_stop\<close>, \<open>INTELICH_getbufpos\<close> and the interrupt
  routine dereference \<open>aui->card_private_data\<close> without a test; on a null pointer
  the model returns \<open>NullDeref\<close>.  The flag \<open>sbemu\<close> says whether the file is
  compiled with the macro \<open>SBEMU\<close> defined.
\<close>

definition INTELICH_start ::
  "bool \<Rightarrow> hw \<Rightarrow> 'f mpxplay_audioout_info_s \<Rightarrow> world \<Rightarrow> fault + world" where
  "INTELICH_start sbemu h aui w =
     (case card_private_data aui of
        None \<Rightarrow> Inl NullDeref
      | Some crd \<Rightarrow>
          (case snd_intel_codec_ready h crd ICH_GLOB_STAT_PCR w of
             (r, w1) \<Rightarrow>
               if sbemu
               then (case snd_intel_read_8 h crd ICH_PO_CR_REG w1 of
                       (cr, w2) \<Rightarrow>
                         Inr (snd_intel_write_8 crd ICH_PO_CR_REG
                                (cr OR ICH_PO_CR_LVBIE OR ICH_PO_CR_IOCE OR ICH_PO_CR_START) w2))
               else Inr w1))"

definition INTELICH_stop ::
  "hw \<Rightarrow> 'f mpxplay_audioout_info_s \<Rightarrow> world \<Rightarrow> fault + world" where
  "INTELICH_stop h aui w =
     (case card_private_data aui of
        None \<Rightarrow> Inl NullDeref
      | Some crd \<Rightarrow>
          (case snd_intel_read_8 h crd ICH_PO_CR_REG w of
             (cmd, w1) \<Rightarrow>
               Inr (snd_intel_write_8 crd ICH_PO_CR_REG (cmd AND NOT ICH_PO_CR_START) w1)))"

subsection \<open>Interrupt routine (compiled with SBEMU only)\<close>

definition count_up :: "SIS7012_DebugVars \<Rightarrow> world \<Rightarrow> world" where
  "count_up v w = w\<lparr>g_counts := (g_counts w)(v := g_counts w v + 1)\<rparr>"

definition irq_lvbci :: "hw \<Rightarrow> 'f intel_card_s \<Rightarrow> world \<Rightarrow> world" where
  "irq_lvbci h crd w =
     (case snd_intel_read_8 h crd ICH_PO_CR_REG (count_up SIS7012_DEBUG_BUP_COUNT w) of
        (cr, w1) \<Rightarrow>
          snd_intel_write_8 crd ICH_PO_LVI_REG (of_nat (ICH_DMABUF_PERIODS - 1))
            (snd_intel_write_8 crd ICH_PO_CR_REG
               (cr OR ICH_PO_CR_START OR ICH_PO_CR_IOCE OR ICH_PO_CR_FEIE OR ICH_PO_CR_LVBIE) w1))"

definition irq_bcis :: "hw \<Rightarrow> 'f intel_card_s \<Rightarrow> world \<Rightarrow> world" where
  "irq_bcis h crd w =
     (case snd_intel_read_8 h crd ICH_PO_LVI_REG (count_up SIS7012_DEBUG_IOC_COUNT w) of
        (lvi, w1) \<Rightarrow>
          snd_intel_write_8 crd ICH_PO_LVI_REG ((lvi + 1) mod of_nat ICH_DMABUF_PERIODS) w1)"

definition INTELICH_IRQRoutine ::
  "hw \<Rightarrow> 'f mpxplay_audioout_info_s \<Rightarrow> world \<Rightarrow> fault + (u32 \<times> world)" where
  "INTELICH_IRQRoutine h aui w =
     (case card_private_data aui of
        None \<Rightarrow> Inl NullDeref
      | Some crd \<Rightarrow>
          (case snd_intel_read_8 h crd (ICH_PO_SR_REG (device_type crd)) w of
             (status, w1) \<Rightarrow>
               (let w2 = (if status AND ICH_PO_SR_LVBCI \<noteq> 0 then irq_lvbci h crd w1 else w1);
                    w3 = (if status AND ICH_PO_SR_BCIS \<noteq> 0 then irq_bcis h crd w2 else w2);
                    w4 = (if status AND ICH_PO_SR_FIFO \<noteq> 0
                          then count_up SIS7012_DEBUG_FIFO_COUNT w3 else w3);
                    w5 = snd_intel_write_8 crd (ICH_PO_SR_REG (device_type crd))
                           (status AND (ICH_PO_SR_LVBCI OR ICH_PO_SR_BCIS OR ICH_PO_SR_FIFO)) w4
                in Inr (if status \<noteq> 0 then 1 else 0, w5))))"

subsection \<open>Declarations from outside this file\<close>

text \<open>
  The constants, macros and helper functions below are used by the driver but
  declared in headers (\<open>mpxplay.h\<close>, \<open>ac97_def.h\<close>, \<open>dmairq.h\<close>) that are not
  part of these sources; they enter as one parameter record.  \<open>pds_gettimeu k\<close> is
  the value of the \<open>k\<close>-th reading of the microsecond timer.  The last fields are
  the floating point operations on the clock corrector:
  the test \<open>if (corrector)\<close>, \<open>(long)((float)freq * corrector)\<close>,
  \<open>(long)((float)freq / corrector)\<close>, the constant \<open>0.0\<close>, the quotient
  \<open>((float)freq*chan*(bits/8)) / ((float)dmabufsize*1000000.0/(float)timelen)\<close>
  and the two tests \<open>c > 0.99 && c < 1.01\<close> and \<open>c < 0.60 || c > 1.5\<close>.
\<close>

record 'f externals =
  AUINFOS_CARDINFOBIT_DMAUNDERRUN :: u32
  MPXPLAY_WAVEID_PCM_SLE :: u32
  AC97_SPDIF_CONTROL :: u32
  AC97_SC_SPSR_MASK :: u32
  AC97_SC_SPSR_32K :: u32
  AC97_SC_SPSR_44K :: u32
  AC97_SC_SPSR_48K :: u32
  AC97_PCM_FRONT_DAC_RATE :: u32
  pds_cardmem_physicalptr :: "u32 \<Rightarrow> u32 \<Rightarrow> u32"
  MDma_init_pcmoutbuf ::
    "'f mpxplay_audioout_info_s \<Rightarrow> u32 \<Rightarrow> u32 \<Rightarrow> u32 \<Rightarrow> u32 \<times> 'f mpxplay_audioout_info_s"
  AUCARDS_DMABUFSIZE_NORMAL :: u32
  pds_gettimeu :: "nat \<Rightarrow> int"
  corrector_nonzero :: "'f \<Rightarrow> bool"
  freq_times_corrector :: "u32 \<Rightarrow> 'f \<Rightarrow> u32"
  freq_over_corrector :: "u32 \<Rightarrow> 'f \<Rightarrow> u32"
  corrector_zero :: 'f
  corrector_quotient :: "u32 \<Rightarrow> u32 \<Rightarrow> u32 \<Rightarrow> u32 \<Rightarrow> int \<Rightarrow> 'f"
  corrector_accurate :: "'f \<Rightarrow> bool"
  corrector_implausible :: "'f \<Rightarrow> bool"

text \<open>
  Modelled from the spec: \<open>MDma_clearbuf\<close> is the DMA helper that clears the
  buffer contents; a call is recorded in the trace.
\<close>

definition MDma_clearbuf :: "world \<Rightarrow> world" where
  "MDma_clearbuf = emit ClearBuf"

subsection \<open>Playback position\<close>

text \<open>
  One pass through the body of the \<open>do { ... } while (--retry)\<close> loop of
  \<open>INTELICH_getbufpos\<close>, with the counter at \<open>retry\<close>.  The first component of
  the result says whether the pass left the loop by \<open>break\<close>; every
  \<open>continue\<close> gives \<open>False\<close>.  The parts under \<open>#ifndef SBEMU\<close> are the
  branches with \<open>\<not> sbemu\<close>.  All arithmetic is unsigned 32-bit and wraps.
\<close>

definition getbufpos_pass ::
  "bool \<Rightarrow> 'f externals \<Rightarrow> hw \<Rightarrow> 'f intel_card_s \<Rightarrow> nat \<Rightarrow>
   'f mpxplay_audioout_info_s \<Rightarrow> world \<Rightarrow> bool \<times> 'f mpxplay_audioout_info_s \<times> world" where
  "getbufpos_pass sbemu ext h crd retry aui w =
     (case snd_intel_read_8 h crd ICH_PO_CIV_REG w of
        (index, w1) \<Rightarrow>
          if \<not> sbemu \<and> index \<ge> of_nat ICH_DMABUF_PERIODS
          then (if retry > 1 then (False, aui, w1)
                else (False,
                      aui\<lparr>card_infobits := card_infobits aui OR AUINFOS_CARDINFOBIT_DMAUNDERRUN ext\<rparr>,
                      snd_intel_write_8 crd ICH_PO_CIV_REG 0 (MDma_clearbuf w1)))
          else
            (case snd_intel_read_16 h crd (ICH_PO_PICB_REG (device_type crd)) w1 of
               (picb, w2) \<Rightarrow>
                 (let pcmpos = (if device_type crd \<noteq> DEVICE_SIS
                                then picb * drop_bit 3 (bits_card aui) else picb);
                      bad = (pcmpos = 0 \<or> pcmpos > period_size_bytes crd);
                      s3 = (if bad
                            then (case snd_intel_read_8 h crd ICH_PO_LVI_REG w2 of
                                    (lvi, w2a) \<Rightarrow>
                                      if lvi = index
                                      then (aui\<lparr>card_infobits :=
                                                   card_infobits aui OR
                                                   AUINFOS_CARDINFOBIT_DMAUNDERRUN ext\<rparr>,
                                            MDma_clearbuf w2a)
                                      else (aui, w2a))
                            else (aui, w2))
                  in if bad \<and> \<not> sbemu then (False, fst s3, snd s3)
                     else
                       (case (if sbemu then (index, snd s3)
                              else snd_intel_read_8 h crd ICH_PO_CIV_REG (snd s3)) of
                          (index2, w4) \<Rightarrow>
                            if index2 \<noteq> index then (False, fst s3, w4)
                            else
                              (let pcmpos' = period_size_bytes crd - pcmpos;
                                   bufpos = index * period_size_bytes crd + pcmpos'
                               in if bufpos < card_dmasize (fst s3)
                                  then (True, (fst s3)\<lparr>card_dma_lastgoodpos := bufpos\<rparr>, w4)
                                  else (False, fst s3, w4))))))"

fun getbufpos_loop ::
  "bool \<Rightarrow> 'f externals \<Rightarrow> hw \<Rightarrow> 'f intel_card_s \<Rightarrow> nat \<Rightarrow>
   'f mpxplay_audioout_info_s \<Rightarrow> world \<Rightarrow> 'f mpxplay_audioout_info_s \<times> world" where
  "getbufpos_loop sbemu ext h crd 0 aui w = (aui, w)"
| "getbufpos_loop sbemu ext h crd (Suc n) aui w =
     (case getbufpos_pass sbemu ext h crd (Suc n) aui w of
        (True, aui', w') \<Rightarrow> (aui', w')
      | (False, aui', w') \<Rightarrow> getbufpos_loop sbemu ext h crd n aui' w')"

definition INTELICH_getbufpos ::
  "bool \<Rightarrow> 'f externals \<Rightarrow> hw \<Rightarrow> 'f mpxplay_audioout_info_s \<Rightarrow> world \<Rightarrow>
   fault + (u32 \<times> 'f mpxplay_audioout_info_s \<times> world)" where
  "INTELICH_getbufpos sbemu ext h aui w =
     (case card_private_data aui of
        None \<Rightarrow> Inl NullDeref
      | Some crd \<Rightarrow>
          (case getbufpos_loop sbemu ext h crd 3 aui w of
             (aui', w') \<Rightarrow> Inr (card_dma_lastgoodpos aui', aui', w')))"

subsection \<open>Codec access\<close>

definition snd_intel_codec_semaphore :: "hw \<Rightarrow> 'f intel_card_s \<Rightarrow> u32 \<Rightarrow> world \<Rightarrow> world" where
  "snd_intel_codec_semaphore h crd codec w =
     (case snd_intel_codec_ready h crd codec w of
        (r0, w1) \<Rightarrow>
          (case retry_loop
                  (\<lambda>w. case snd_intel_read_8 h crd ICH_ACC_SEMA_REG w of
                          (v, w') \<Rightarrow> (v AND ICH_CODEC_BUSY = 0, w'))
                  ICH_DEFAULT_RETRY w1 of
             (r, w2) \<Rightarrow>
               if r \<noteq> 0 then w2
               else snd (inw h (baseport_codec crd) w2)))"

definition snd_intel_codec_write ::
  "hw \<Rightarrow> 'f intel_card_s \<Rightarrow> u32 \<Rightarrow> u32 \<Rightarrow> world \<Rightarrow> world" where
  "snd_intel_codec_write h crd reg data w =
     outw (baseport_codec crd + reg) data (snd_intel_codec_semaphore h crd ICH_GLOB_STAT_PCR w)"

fun codec_read_loop ::
  "hw \<Rightarrow> 'f intel_card_s \<Rightarrow> u32 \<Rightarrow> nat \<Rightarrow> u32 \<Rightarrow> world \<Rightarrow> u32 \<times> world" where
  "codec_read_loop h crd reg 0 data w = (data, w)"
| "codec_read_loop h crd reg (Suc n) data w =
     (case inw h (baseport_codec crd + reg) w of
        (d, w1) \<Rightarrow>
          (case snd_intel_read_32 h crd ICH_GLOB_STAT_REG w1 of
             (st, w2) \<Rightarrow>
               if st AND ICH_GLOB_STAT_RCS = 0 then (d, w2)
               else codec_read_loop h crd reg n d w2))"

definition snd_intel_codec_read ::
  "hw \<Rightarrow> 'f intel_card_s \<Rightarrow> u32 \<Rightarrow> world \<Rightarrow> u32 \<times> world" where
  "snd_intel_codec_read h crd reg w =
     codec_read_loop h crd reg ICH_DEFAULT_RETRY 0
       (snd_intel_codec_semaphore h crd ICH_GLOB_STAT_PCR w)"

subsection \<open>Prepare playback\<close>

text \<open>
  \<open>snd_intel_prepare_playback\<close> is one long function; its consecutive parts are
  named here and put together in source order below.
\<close>

text \<open>Wait until the DMA engine reports halted, then reset the channel.\<close>

definition prepare_wait_reset :: "hw \<Rightarrow> 'f intel_card_s \<Rightarrow> world \<Rightarrow> world" where
  "prepare_wait_reset h crd w =
     (case retry_loop
             (\<lambda>w. case snd_intel_read_8 h crd (ICH_PO_SR_REG (device_type crd)) w of
                     (v, w') \<Rightarrow> (v AND ICH_PO_SR_DCH \<noteq> 0, w'))
             ICH_DEFAULT_RETRY w of
        (r, w1) \<Rightarrow>
          (case snd_intel_read_8 h crd ICH_PO_CR_REG w1 of
             (cr, w2) \<Rightarrow> snd_intel_write_8 crd ICH_PO_CR_REG (cr OR ICH_PO_CR_RESET) w2))"

text \<open>Channels (2) and sample width (16/32).\<close>

definition prepare_setup_pcm_out ::
  "hw \<Rightarrow> 'f intel_card_s \<Rightarrow> 'f mpxplay_audioout_info_s \<Rightarrow> world \<Rightarrow>
   'f mpxplay_audioout_info_s \<times> world" where
  "prepare_setup_pcm_out h crd aui w =
     (if device_type crd = DEVICE_SIS
      then (case snd_intel_read_32 h crd ICH_GLOB_CNT_REG w of
              (cmd, w1) \<Rightarrow>
                (aui, snd_intel_write_32 crd ICH_GLOB_CNT_REG (cmd AND NOT ICH_SIS_PCM_246_MASK) w1))
      else (case snd_intel_read_32 h crd ICH_GLOB_CNT_REG w of
              (cmd0, w1) \<Rightarrow>
                (let cmd = cmd0 AND NOT (ICH_PCM_246_MASK OR ICH_PCM_20BIT)
                 in if bits_set aui > 16 \<and> device_type crd = DEVICE_INTEL_ICH4
                    then (case snd_intel_read_32 h crd ICH_GLOB_STAT_REG w1 of
                            (st, w2) \<Rightarrow>
                              if st AND ICH_SAMPLE_CAP = ICH_SAMPLE_16_20
                              then (aui\<lparr>bits_card := 32\<rparr>,
                                    snd_intel_write_32 crd ICH_GLOB_CNT_REG
                                      (cmd OR ICH_PCM_20BIT) w2)
                              else (aui, snd_intel_write_32 crd ICH_GLOB_CNT_REG cmd w2))
                    else (aui, snd_intel_write_32 crd ICH_GLOB_CNT_REG cmd w1))))"

text \<open>
  SPDIF sample rate.  The \<open>switch\<close> picks one of three codes; the codes themselves
  are macros of \<open>ac97_def.h\<close>.
\<close>

datatype spdif_rate_sel = SPSR_32K | SPSR_44K | SPSR_48K

definition spdif_rate_switch :: "u32 \<Rightarrow> spdif_rate_sel" where
  "spdif_rate_switch freq =
     (if freq = 32000 then SPSR_32K else if freq = 44100 then SPSR_44K else SPSR_48K)"

definition spdif_rate_code :: "'f externals \<Rightarrow> spdif_rate_sel \<Rightarrow> u32" where
  "spdif_rate_code ext r =
     (case r of SPSR_32K \<Rightarrow> AC97_SC_SPSR_32K ext
              | SPSR_44K \<Rightarrow> AC97_SC_SPSR_44K ext
              | SPSR_48K \<Rightarrow> AC97_SC_SPSR_48K ext)"

definition prepare_spdif ::
  "'f externals \<Rightarrow> hw \<Rightarrow> 'f intel_card_s \<Rightarrow> 'f mpxplay_audioout_info_s \<Rightarrow> world \<Rightarrow> world" where
  "prepare_spdif ext h crd aui w =
     (let spdif_rate = spdif_rate_code ext (spdif_rate_switch (freq_card aui))
      in case snd_intel_codec_read h crd (AC97_SPDIF_CONTROL ext) w of
           (cmd, w1) \<Rightarrow>
             snd_intel_codec_write h crd (AC97_SPDIF_CONTROL ext)
               ((cmd AND AC97_SC_SPSR_MASK ext) OR spdif_rate) w1)"

text \<open>Analog front DAC rate, adjusted by the clock corrector when there is one.\<close>

definition prepare_dac_rate ::
  "'f externals \<Rightarrow> hw \<Rightarrow> 'f intel_card_s \<Rightarrow> 'f mpxplay_audioout_info_s \<Rightarrow> world \<Rightarrow>
   'f mpxplay_audioout_info_s \<times> world" where
  "prepare_dac_rate ext h crd aui w =
     (if corrector_nonzero ext (ac97_clock_corrector crd)
      then (if vra crd \<noteq> 0
            then (aui, snd_intel_codec_write h crd (AC97_PCM_FRONT_DAC_RATE ext)
                         (freq_times_corrector ext (freq_card aui) (ac97_clock_corrector crd)) w)
            else (let f = freq_over_corrector ext (freq_card aui) (ac97_clock_corrector crd)
                  in (aui\<lparr>freq_card := f\<rparr>,
                      snd_intel_codec_write h crd (AC97_PCM_FRONT_DAC_RATE ext) f w)))
      else (aui, snd_intel_codec_write h crd (AC97_PCM_FRONT_DAC_RATE ext) (freq_card aui) w))"

text \<open>
  The period table.  Entry \<open>i\<close> of the list is the pair of 32-bit words
  \<open>table_base[i*2]\<close> and \<open>table_base[i*2+1]\<close>.  The first loop fills the
  \<open>ICH_DMABUF_PERIODS\<close> used entries, the second zeroes the others.
\<close>

definition bdl_used_entry ::
  "bool \<Rightarrow> 'f externals \<Rightarrow> 'f intel_card_s \<Rightarrow> u32 \<Rightarrow> nat \<Rightarrow> (nat \<Rightarrow> u32) \<Rightarrow> (nat \<Rightarrow> u32)" where
  "bdl_used_entry sbemu ext crd period_size_samples i m =
     (let addr = pds_cardmem_physicalptr ext (dm crd)
                   (pcmout_buffer crd + of_nat i * period_size_bytes crd);
          len = (if device_type crd = DEVICE_SIS then period_size_bytes crd
                 else period_size_samples);
          len' = (if sbemu then len OR push_bit 16 ICH_BD_IOC else len)
      in m(i * 2 := addr, i * 2 + 1 := len'))"

definition bdl_unused_entry :: "nat \<Rightarrow> (nat \<Rightarrow> u32) \<Rightarrow> (nat \<Rightarrow> u32)" where
  "bdl_unused_entry i m = m(i * 2 := 0, i * 2 + 1 := 0)"

definition prepare_period_table ::
  "bool \<Rightarrow> 'f externals \<Rightarrow> 'f intel_card_s \<Rightarrow> u32 \<Rightarrow> (nat \<Rightarrow> u32) \<Rightarrow> (nat \<Rightarrow> u32)" where
  "prepare_period_table sbemu ext crd period_size_samples m =
     fold bdl_unused_entry [ICH_DMABUF_PERIODS ..< ICH_DMABUF_MAX_PERIODS]
       (fold (bdl_used_entry sbemu ext crd period_size_samples) [0 ..< ICH_DMABUF_PERIODS] m)"

text \<open>Publish the table, set last valid index and current index, clear the status bits.\<close>

definition prepare_publish :: "'f externals \<Rightarrow> 'f intel_card_s \<Rightarrow> world \<Rightarrow> world" where
  "prepare_publish ext crd w =
     snd_intel_write_8 crd (ICH_PO_SR_REG (device_type crd))
       (ICH_PO_SR_LVBCI OR ICH_PO_SR_BCIS OR ICH_PO_SR_FIFO)
       (snd_intel_write_8 crd ICH_PO_CIV_REG 0
          (snd_intel_write_8 crd ICH_PO_LVI_REG (of_nat (ICH_DMABUF_PERIODS - 1))
             (snd_intel_write_32 crd ICH_PO_BDBAR_REG
                (pds_cardmem_physicalptr ext (dm crd) (buffer_descriptor_list crd)) w)))"

text \<open>
  The division \<open>period_size_bytes / (bits_card >> 3)\<close> traps when \<open>bits_card\<close> is
  below 8; the model returns \<open>DivByZero\<close> there.
\<close>

definition snd_intel_prepare_playback ::
  "bool \<Rightarrow> 'f externals \<Rightarrow> hw \<Rightarrow> 'f intel_card_s \<Rightarrow> 'f mpxplay_audioout_info_s \<Rightarrow> world \<Rightarrow>
   fault + ('f mpxplay_audioout_info_s \<times> world)" where
  "snd_intel_prepare_playback sbemu ext h crd aui w =
     (let w2 = prepare_wait_reset h crd w;
          s3 = prepare_setup_pcm_out h crd aui w2;
          w4 = prepare_spdif ext h crd (fst s3) (snd s3);
          s5 = prepare_dac_rate ext h crd (fst s3) w4;
          aui5 = fst s5
      in if drop_bit 3 (bits_card aui5) = 0 then Inl DivByZero
         else
           (let period_size_samples = period_size_bytes crd div drop_bit 3 (bits_card aui5);
                w6 = (snd s5)\<lparr>bdl_mem :=
                        prepare_period_table sbemu ext crd period_size_samples (bdl_mem (snd s5))\<rparr>;
                w7 = prepare_publish ext crd w6
            in Inr (if sbemu then aui5\<lparr>card_samples_per_int := period_size_samples div 2\<rparr>
                    else aui5, w7)))"

subsection \<open>Clock measurement and set rate\<close>

definition gettimeu :: "'f externals \<Rightarrow> world \<Rightarrow> int \<times> world" where
  "gettimeu ext w = (pds_gettimeu ext (timer_reads w), w\<lparr>timer_reads := Suc (timer_reads w)\<rparr>)"

text \<open>
  The polling loop of the measurement,
  \<open>do { if (CIV >= 3) if (CIV >= 3) break; } while (pds_gettimeu() <= starttime + 1000000);\<close>
  ends only when the device reaches the last period or the timer passes the limit;
  with a timer that stands still it runs forever, which is the value \<open>None\<close>.
\<close>

partial_function (option) measure_poll ::
  "'f externals \<Rightarrow> hw \<Rightarrow> 'f intel_card_s \<Rightarrow> int \<Rightarrow> world \<Rightarrow> world option" where
  "measure_poll ext h crd starttime w =
     (let r1 = snd_intel_read_8 h crd ICH_PO_CIV_REG w;
          reached = (fst r1 \<ge> of_nat (ICH_DMABUF_PERIODS - 1));
          r2 = (if reached then snd_intel_read_8 h crd ICH_PO_CIV_REG (snd r1) else r1)
      in if reached \<and> fst r2 \<ge> of_nat (ICH_DMABUF_PERIODS - 1) then Some (snd r2)
         else (let t = gettimeu ext (snd r2)
               in if fst t \<le> starttime + 1000000
                  then measure_poll ext h crd starttime (snd t)
                  else Some (snd t)))"

text \<open>
  The test \<open>timelen && timelen < 1000000\<close> and the assignments to the corrector.
\<close>

definition measured_corrector ::
  "'f externals \<Rightarrow> 'f intel_card_s \<Rightarrow> 'f mpxplay_audioout_info_s \<Rightarrow> int \<Rightarrow> 'f" where
  "measured_corrector ext crd aui timelen =
     (if timelen \<noteq> 0 \<and> timelen < 1000000
      then (let dmabufsize = period_size_bytes crd * of_nat (ICH_DMABUF_PERIODS - 1);
                c0 = corrector_quotient ext (freq_card aui) (chan_card aui) (bits_card aui)
                       dmabufsize timelen;
                c1 = (if corrector_accurate ext c0 then corrector_zero ext else c0)
            in if corrector_implausible ext c1 then corrector_zero ext else c1)
      else ac97_clock_corrector crd)"

text \<open>
  In \<open>snd_intel_measure_ac97_clock\<close> the buffer size is a \<open>long\<close>: \<open>min\<close> compares
  and \<open>/\<close> divides signed.  The card record is reached through the host structure
  in C; here the copy inside the host structure is kept up to date by hand.
\<close>

definition snd_intel_measure_ac97_clock ::
  "bool \<Rightarrow> 'f externals \<Rightarrow> hw \<Rightarrow> 'f mpxplay_audioout_info_s \<Rightarrow> world \<Rightarrow>
   (fault + ('f mpxplay_audioout_info_s \<times> world)) option" where
  "snd_intel_measure_ac97_clock sbemu ext h aui w =
     (case card_private_data aui of
        None \<Rightarrow> Some (Inl NullDeref)
      | Some crd \<Rightarrow>
          (let freq_save = freq_card aui;
               aui1 = aui\<lparr>freq_card := 48000, chan_card := 2, bits_card := 16\<rparr>;
               size0 = (if pcmout_bufsize crd <s AUCARDS_DMABUFSIZE_NORMAL ext
                        then pcmout_bufsize crd else AUCARDS_DMABUFSIZE_NORMAL ext);
               r = MDma_init_pcmoutbuf ext aui1 size0 (of_nat (ICH_DMABUF_MAX_PERIODS * 8)) 0;
               crd1 = crd\<lparr>period_size_bytes :=
                        word_of_int (sint (fst r) sdiv int ICH_DMABUF_PERIODS)\<rparr>;
               aui2 = (snd r)\<lparr>card_private_data := Some crd1\<rparr>
           in case snd_intel_prepare_playback sbemu ext h crd1 aui2 w of
                Inl e \<Rightarrow> Some (Inl e)
              | Inr (aui3, w3) \<Rightarrow>
                  (let w4 = MDma_clearbuf w3;
                       c5 = (if sbemu
                             then (case snd_intel_read_8 h crd1 ICH_PO_CR_REG w4 of
                                     (cr, w') \<Rightarrow> (cr, snd_intel_write_8 crd1 ICH_PO_CR_REG 0 w'))
                             else (0, w4))
                   in case INTELICH_start sbemu h aui3 (snd c5) of
                        Inl e \<Rightarrow> Some (Inl e)
                      | Inr w6 \<Rightarrow>
                          (let t0 = gettimeu ext w6
                           in case measure_poll ext h crd1 (fst t0) (snd t0) of
                                None \<Rightarrow> None
                              | Some w8 \<Rightarrow>
                                  (let t1 = gettimeu ext w8;
                                       timelen = (if fst t1 > fst t0 then fst t1 - fst t0 else 0)
                                   in case INTELICH_stop h aui3 (snd t1) of
                                        Inl e \<Rightarrow> Some (Inl e)
                                      | Inr w10 \<Rightarrow>
                                          (let w11 = (if sbemu
                                                      then snd_intel_write_8 crd1 ICH_PO_CR_REG (fst c5) w10
                                                      else w10);
                                               crd2 = crd1\<lparr>ac97_clock_corrector :=
                                                             measured_corrector ext crd1 aui3 timelen,
                                                           ac97_clock_detected := 1\<rparr>
                                           in Some (Inr (aui3\<lparr>freq_card := freq_save,
                                                             card_private_data := Some crd2\<rparr>,
                                                         w11))))))))"

text \<open>
  \<open>INTELICH_setrate\<close> in three parts: the one-time clock measurement, then output
  format and frequency clamp, then buffer set-up, period size and prepare.
\<close>

definition setrate_format ::
  "'f externals \<Rightarrow> 'f intel_card_s \<Rightarrow> 'f mpxplay_audioout_info_s \<Rightarrow> 'f mpxplay_audioout_info_s" where
  "setrate_format ext crd aui =
     (let a = aui\<lparr>card_wave_id := MPXPLAY_WAVEID_PCM_SLE ext, chan_card := 2, bits_card := 16\<rparr>
      in if vra crd = 0 then a\<lparr>freq_card := 48000\<rparr>
         else if freq_card a < 8000 then a\<lparr>freq_card := 8000\<rparr>
         else if freq_card a > 48000 then a\<lparr>freq_card := 48000\<rparr>
         else a)"

definition setrate_prepare ::
  "bool \<Rightarrow> 'f externals \<Rightarrow> hw \<Rightarrow> 'f intel_card_s \<Rightarrow> 'f mpxplay_audioout_info_s \<Rightarrow> world \<Rightarrow>
   fault + ('f mpxplay_audioout_info_s \<times> world)" where
  "setrate_prepare sbemu ext h crd aui w =
     (case MDma_init_pcmoutbuf ext aui (pcmout_bufsize crd)
             (of_nat (ICH_DMABUF_MAX_PERIODS * 8)) 0 of
        (dmabufsize, aui1) \<Rightarrow>
          (let crd1 = crd\<lparr>period_size_bytes := dmabufsize div of_nat ICH_DMABUF_PERIODS\<rparr>
           in snd_intel_prepare_playback sbemu ext h crd1
                (aui1\<lparr>card_private_data := Some crd1\<rparr>) w))"

definition INTELICH_setrate ::
  "bool \<Rightarrow> 'f externals \<Rightarrow> hw \<Rightarrow> 'f mpxplay_audioout_info_s \<Rightarrow> world \<Rightarrow>
   (fault + ('f mpxplay_audioout_info_s \<times> world)) option" where
  "INTELICH_setrate sbemu ext h aui w =
     (case card_private_data aui of
        None \<Rightarrow> Some (Inl NullDeref)
      | Some crd \<Rightarrow>
          (case (if device_type crd = DEVICE_INTEL \<and> ac97_clock_detected crd = 0
                 then snd_intel_measure_ac97_clock sbemu ext h aui w
                 else Some (Inr (aui, w))) of
             None \<Rightarrow> None
           | Some (Inl e) \<Rightarrow> Some (Inl e)
           | Some (Inr (aui1, w1)) \<Rightarrow>
               (case card_private_data aui1 of
                  None \<Rightarrow> Some (Inl NullDeref)
                | Some crd1 \<Rightarrow>
                    Some (setrate_prepare sbemu ext h crd1 (setrate_format ext crd1 aui1) w1))))"


subsection \<open>Concrete states used to exercise the theorems\<close>

text \<open>
  A card at bus master base 0xF000 and codec base 0xEF00 with a 16384-byte buffer in
  four periods of 4096 bytes, a host structure for it, and a few devices.  In
  \<open>ext0\<close> the codec register numbers and rate codes are those of the AC'97
  standard, address translation is the identity and the corrector is absent; no
  theorem depends on these choices.
\<close>

definition world0 :: world where
  "world0 = \<lparr>reads = 0, timer_reads = 0, trace = [], bdl_mem = (\<lambda>_. 0), g_counts = (\<lambda>_. 0)\<rparr>"

definition card0 :: "device_type \<Rightarrow> unit intel_card_s" where
  "card0 dt = \<lparr>baseport_bm = 0xF000, baseport_codec = 0xEF00, irq = 11, device_type = dt,
     pci_dev = None, dm = 0x100000, buffer_descriptor_list = 0x200000,
     pcmout_buffer = 0x200100, pcmout_bufsize = 16384, period_size_bytes = 4096,
     vra = 1, ac97_clock_detected = 1, ac97_clock_corrector = ()\<rparr>"

definition aui0 :: "unit intel_card_s option \<Rightarrow> unit mpxplay_audioout_info_s" where
  "aui0 c = \<lparr>freq_set = 44100, freq_card = 44100, chan_card = 2, bits_set = 16, bits_card = 16,
     card_wave_id = 0, card_infobits = 0, card_dmasize = 16384, card_dma_lastgoodpos = 0,
     card_samples_per_int = 0, card_private_data = c\<rparr>"

definition ext0 :: "unit externals" where
  "ext0 = \<lparr>AUINFOS_CARDINFOBIT_DMAUNDERRUN = 2, MPXPLAY_WAVEID_PCM_SLE = 1,
     AC97_SPDIF_CONTROL = 0x3a, AC97_SC_SPSR_MASK = 0x3000, AC97_SC_SPSR_32K = 0x3000,
     AC97_SC_SPSR_44K = 0, AC97_SC_SPSR_48K = 0x2000, AC97_PCM_FRONT_DAC_RATE = 0x2c,
     pds_cardmem_physicalptr = (\<lambda>dm p. p),
     MDma_init_pcmoutbuf = (\<lambda>aui maxsize pagesize limit. (maxsize, aui\<lparr>card_dmasize := maxsize\<rparr>)),
     AUCARDS_DMABUFSIZE_NORMAL = 32768,
     pds_gettimeu = (\<lambda>k. 100 * int k),
     corrector_nonzero = (\<lambda>_. False),
     freq_times_corrector = (\<lambda>f _. f),
     freq_over_corrector = (\<lambda>f _. f),
     corrector_zero = (),
     corrector_quotient = (\<lambda>_ _ _ _ _. ()),
     corrector_accurate = (\<lambda>_. True),
     corrector_implausible = (\<lambda>_. False)\<rparr>"

definition hw_const :: "u32 \<Rightarrow> hw" where
  "hw_const v = (\<lambda>k p. v)"

definition hw_bad_index_once :: hw where
  "hw_bad_index_once = (\<lambda>k p. if k = 0 then 7 else if p = 0xF018 then 100 else 0)"

definition aui_open :: "unit mpxplay_audioout_info_s" where
  "aui_open = aui0 (Some (card0 DEVICE_INTEL))"

definition aui_stale :: "unit mpxplay_audioout_info_s" where
  "aui_stale = aui_open\<lparr>card_dma_lastgoodpos := 20000\<rparr>"

definition hw_ready :: hw where
  "hw_ready = (\<lambda>k p. if p = 0xF030 then 0x100 else if p = 0xF016 then 1 else 0)"

definition aui_33000 :: "unit mpxplay_audioout_info_s" where
  "aui_33000 = aui_open\<lparr>freq_card := 33000\<rparr>"

definition card_novra :: "unit intel_card_s" where
  "card_novra = (card0 DEVICE_INTEL)\<lparr>vra := 0\<rparr>"

definition aui_freq :: "u32 \<Rightarrow> unit mpxplay_audioout_info_s" where
  "aui_freq f = aui_open\<lparr>freq_card := f\<rparr>"

definition aui_24bit :: "device_type \<Rightarrow> unit mpxplay_audioout_info_s" where
  "aui_24bit dt = (aui0 (Some (card0 dt)))\<lparr>bits_set := 24\<rparr>"

definition hw_cap20 :: hw where
  "hw_cap20 = (\<lambda>k p. if p = 0xF030 then 0x00400100 else 0)"

text \<open>
  The card frequency a call of \<open>INTELICH_setrate\<close> leaves in the host structure,
  when the call returns without a fault.
\<close>

definition result_freq_card ::
  "(fault + ('f mpxplay_audioout_info_s \<times> world)) option \<Rightarrow> u32 option" where
  "result_freq_card r =
     (case r of
        Some (Inr (a, w)) \<Rightarrow> Some (freq_card a)
      | _ \<Rightarrow> None)"

text \<open>
  A card without variable rate audio that holds a clock corrector of 0.8, and
  externals that read a corrector as a multiple of \<open>2^-24\<close> (the \<open>float\<close> nearest to
  0.8 is 13421773 of them) and divide exactly before the conversion to \<open>long\<close>
  truncates.
\<close>

definition ext_q24 :: "nat externals" where
  "ext_q24 = \<lparr>AUINFOS_CARDINFOBIT_DMAUNDERRUN = 2, MPXPLAY_WAVEID_PCM_SLE = 1,
     AC97_SPDIF_CONTROL = 0x3a, AC97_SC_SPSR_MASK = 0x3000, AC97_SC_SPSR_32K = 0x3000,
     AC97_SC_SPSR_44K = 0, AC97_SC_SPSR_48K = 0x2000, AC97_PCM_FRONT_DAC_RATE = 0x2c,
     pds_cardmem_physicalptr = (\<lambda>dm p. p),
     MDma_init_pcmoutbuf = (\<lambda>aui maxsize pagesize limit. (maxsize, aui\<lparr>card_dmasize := maxsize\<rparr>)),
     AUCARDS_DMABUFSIZE_NORMAL = 32768,
     pds_gettimeu = (\<lambda>k. 100 * int k),
     corrector_nonzero = (\<lambda>c. c \<noteq> 0),
     freq_times_corrector = (\<lambda>f c. of_nat (unat f * c div 2 ^ 24)),
     freq_over_corrector = (\<lambda>f c. of_nat (unat f * 2 ^ 24 div c)),
     corrector_zero = 0,
     corrector_quotient = (\<lambda>_ _ _ _ _. 0),
     corrector_accurate = (\<lambda>_. True),
     corrector_implausible = (\<lambda>_. False)\<rparr>"

definition card_corr :: "nat intel_card_s" where
  "card_corr = \<lparr>baseport_bm = 0xF000, baseport_codec = 0xEF00, irq = 11,
     device_type = DEVICE_INTEL, pci_dev = None, dm = 0x100000,
     buffer_descriptor_list = 0x200000, pcmout_buffer = 0x200100, pcmout_bufsize = 16384,
     period_size_bytes = 4096, vra = 0, ac97_clock_detected = 1,
     ac97_clock_corrector = 13421773\<rparr>"

definition aui_corr :: "nat mpxplay_audioout_info_s" where
  "aui_corr = \<lparr>freq_set = 44100, freq_card = 44100, chan_card = 2, bits_set = 16, bits_card = 16,
     card_wave_id = 0, card_infobits = 0, card_dmasize = 16384, card_dma_lastgoodpos = 0,
     card_samples_per_int = 0, card_private_data = Some card_corr\<rparr>"

definition aui_novra :: "unit mpxplay_audioout_info_s" where
  "aui_novra = aui0 (Some card_novra)"

definition aui_unmeasured :: "unit mpxplay_audioout_info_s" where
  "aui_unmeasured = aui0 (Some ((card0 DEVICE_INTEL)\<lparr>ac97_clock_detected := 0\<rparr>))"

section \<open>Properties\<close>

subsection \<open>Bit-level helper facts\<close>

lemma and_1C_parts:
  fixes x :: u32
  assumes "x AND 0x1C = 0"
  shows "x AND 4 = 0" "x AND 8 = 0" "x AND 0x10 = 0"
proof -
  have "x AND 4 = (x AND 0x1C) AND 4" by (simp add: and.assoc)
  then show "x AND 4 = 0" using assms by simp
  have "x AND 8 = (x AND 0x1C) AND 8" by (simp add: and.assoc)
  then show "x AND 8 = 0" using assms by simp
  have "x AND 0x10 = (x AND 0x1C) AND 0x10" by (simp add: and.assoc)
  then show "x AND 0x10 = 0" using assms by simp
qed

lemma and_not_same:
  fixes x y :: u32
  shows "x AND y = 0 \<Longrightarrow> x AND NOT y = x"
  by (auto simp: bit_eq_iff bit_and_iff bit_not_iff)

lemma byte_and_not:
  fixes x y :: u32
  shows "((x AND 0xFF) AND NOT y) AND 0xFF = (x AND 0xFF) AND NOT y"
  by (simp add: and.assoc and.left_commute and.commute)

subsection \<open>Device table\<close>

text \<open>
  C7.  Vendor 0x1039 with device 0x7012 resolves to an entry of the SIS7012 family.
  For that family the status register is at offset 0x18 and the position register
  at 0x16; for each of the three other families it is the other way round.
  A pair of ids that no table entry carries resolves to nothing.
\<close>

theorem resolve_sis7012:
  "map_option pci_device_type (resolve 0x1039 0x7012) = Some DEVICE_SIS \<and>
   ICH_PO_SR_REG DEVICE_SIS = 0x18 \<and> ICH_PO_PICB_REG DEVICE_SIS = 0x16 \<and>
   ICH_PO_SR_REG DEVICE_INTEL = 0x16 \<and> ICH_PO_PICB_REG DEVICE_INTEL = 0x18 \<and>
   ICH_PO_SR_REG DEVICE_INTEL_ICH4 = 0x16 \<and> ICH_PO_PICB_REG DEVICE_INTEL_ICH4 = 0x18 \<and>
   ICH_PO_SR_REG DEVICE_NFORCE = 0x16 \<and> ICH_PO_PICB_REG DEVICE_NFORCE = 0x18 \<and>
   ((v, d) \<notin> set (map (\<lambda>e. (vendor_id e, device_id e)) ich_devices) \<longrightarrow> resolve v d = None)"
  by (auto simp: resolve_def ich_devices_def pci_device_def ICH_PO_SR_REG_def ICH_PO_PICB_REG_def
        find_None_iff)

theorem resolve_sis7012_witness:
  "(0x1234, 0x5678) \<notin> set (map (\<lambda>e. (vendor_id e, device_id e)) ich_devices) \<and>
   resolve 0x1234 0x5678 = None"
  using resolve_sis7012 [of "0x1234" "0x5678"]
  by (simp add: ich_devices_def pci_device_def)

subsection \<open>Interrupt routine\<close>

text \<open>
  C10.  With a card attached, the interrupt routine returns 1 exactly when the byte
  it read from the status register is nonzero, and 0 otherwise.  The last thing it
  does is write that byte, masked to the three cause bits 0x04, 0x08 and 0x10, back
  to the status register.  When none of the three cause bits is set this
  acknowledgement (of value 0) is the only write, whatever the return value: a
  status byte of 0x01 (DMA halted) alone is reported as handled.
\<close>

theorem IRQRoutine_returns_raw_status:
  "card_private_data aui = Some crd \<Longrightarrow>
   (let sr = baseport_bm crd + ICH_PO_SR_REG (device_type crd);
        status = h (reads w) sr AND 0xFF
    in \<exists>w'. INTELICH_IRQRoutine h aui w = Inr (if status \<noteq> 0 then 1 else 0, w') \<and>
            last (trace w') = Outb sr (status AND 0x1C) \<and>
            (status AND 0x1C = 0 \<longrightarrow> trace w' = trace w @ [Outb sr 0]))"
  by (auto simp: Let_def INTELICH_IRQRoutine_def snd_intel_read_8_def snd_intel_write_8_def
      inb_def outb_def emit_def ICH_PO_SR_LVBCI_def ICH_PO_SR_BCIS_def ICH_PO_SR_FIFO_def
      and.assoc and_1C_parts)

theorem IRQRoutine_returns_raw_status_witness:
  "card_private_data (aui0 (Some (card0 DEVICE_SIS))) = Some (card0 DEVICE_SIS) \<and>
   (\<exists>w'. INTELICH_IRQRoutine (\<lambda>k p. 1) (aui0 (Some (card0 DEVICE_SIS))) world0 = Inr (1, w') \<and>
         trace w' = [Outb 0xF018 0])"
  using IRQRoutine_returns_raw_status
          [of "aui0 (Some (card0 DEVICE_SIS))" "card0 DEVICE_SIS" "\<lambda>k p. 1" world0]
  by (auto simp: aui0_def card0_def world0_def ICH_PO_SR_REG_def Let_def)

subsection \<open>Stop and close\<close>

text \<open>
  C9, as stated, fails on a closed card: after \<open>INTELICH_close\<close> the handle is
  null, and \<open>INTELICH_stop\<close> dereferences it without a test.
\<close>

theorem stop_closed_card_counterexample:
  "INTELICH_stop (hw_const 0) (fst (INTELICH_close aui_open world0))
     (snd (INTELICH_close aui_open world0)) = Inl NullDeref"
  by (simp add: INTELICH_stop_def INTELICH_close_def aui_open_def aui0_def Let_def)

text \<open>
  C9, amended.  On an open card \<open>INTELICH_stop\<close> reads the transfer control
  register once and writes the byte back with the start bit cleared, and nothing
  else; when the start bit was already clear the byte written is the byte read.
  \<open>INTELICH_close\<close> on a closed card changes nothing; after any close the handle is
  null, so a second close changes nothing and releases nothing again.  The chip
  close step writes nothing when the bus master base is 0.
\<close>

theorem stop_close_open_card:
  "card_private_data aui = Some crd \<Longrightarrow>
   (let p = baseport_bm crd + ICH_PO_CR_REG; cmd = h (reads w) p AND 0xFF
    in INTELICH_stop h aui w =
         Inr (w\<lparr>reads := Suc (reads w),
                trace := trace w @ [Outb p (cmd AND NOT ICH_PO_CR_START)]\<rparr>) \<and>
       (cmd AND ICH_PO_CR_START = 0 \<longrightarrow> cmd AND NOT ICH_PO_CR_START = cmd)) \<and>
   INTELICH_close (aui\<lparr>card_private_data := None\<rparr>) w = (aui\<lparr>card_private_data := None\<rparr>, w) \<and>
   card_private_data (fst (INTELICH_close aui w)) = None \<and>
   INTELICH_close (fst (INTELICH_close aui w)) (snd (INTELICH_close aui w)) = INTELICH_close aui w \<and>
   snd_intel_chip_close (crd\<lparr>baseport_bm := 0\<rparr>) w = w"
  by (auto simp: Let_def INTELICH_stop_def INTELICH_close_def snd_intel_chip_close_def
      snd_intel_read_8_def snd_intel_write_8_def inb_def outb_def emit_def byte_and_not
      and_not_same split: option.splits)

theorem stop_close_open_card_witness:
  "card_private_data (aui0 (Some (card0 DEVICE_INTEL))) = Some (card0 DEVICE_INTEL) \<and>
   (0x14 :: u32) AND ICH_PO_CR_START = 0 \<and>
   INTELICH_stop (\<lambda>k p. 0x14) (aui0 (Some (card0 DEVICE_INTEL))) world0 =
     Inr (world0\<lparr>reads := 1, trace := [Outb 0xF01B 0x14]\<rparr>)"
  using stop_close_open_card
          [of "aui0 (Some (card0 DEVICE_INTEL))" "card0 DEVICE_INTEL" "\<lambda>k p. 0x14" world0]
  by (simp add: aui0_def card0_def world0_def Let_def ICH_PO_CR_REG_def ICH_PO_CR_START_def)

subsection \<open>Playback position\<close>

lemmas io_defs = snd_intel_read_8_def snd_intel_read_16_def snd_intel_read_32_def
  snd_intel_write_8_def snd_intel_write_16_def snd_intel_write_32_def
  inb_def inw_def inl_def outb_def outw_def outl_def emit_def MDma_clearbuf_def

lemmas test_defs = aui_open_def aui_stale_def aui0_def card0_def world0_def ext0_def
  hw_const_def hw_bad_index_once_def

lemma getbufpos_pass_inv:
  assumes "getbufpos_pass sbemu ext h crd r aui w = (b, aui', w')"
  shows "card_dmasize aui' = card_dmasize aui \<and>
         (if b then card_dma_lastgoodpos aui' < card_dmasize aui
          else card_dma_lastgoodpos aui' = card_dma_lastgoodpos aui)"
  using assms
  by (auto simp: getbufpos_pass_def Let_def split: prod.splits if_splits)

lemma getbufpos_loop_inv:
  "getbufpos_loop sbemu ext h crd n aui w = (aui', w') \<Longrightarrow>
   card_dmasize aui' = card_dmasize aui \<and>
   (card_dma_lastgoodpos aui' = card_dma_lastgoodpos aui \<or>
    card_dma_lastgoodpos aui' < card_dmasize aui)"
proof (induction n arbitrary: aui w)
  case 0
  then show ?case by simp
next
  case (Suc n)
  obtain b a1 w1 where p: "getbufpos_pass sbemu ext h crd (Suc n) aui w = (b, a1, w1)"
    by (metis prod_cases3)
  note inv = getbufpos_pass_inv [OF p]
  show ?case
  proof (cases b)
    case True
    with Suc.prems p inv show ?thesis by auto
  next
    case False
    with Suc.prems p have "getbufpos_loop sbemu ext h crd n a1 w1 = (aui', w')" by simp
    from Suc.IH [OF this] inv False show ?thesis by auto
  qed
qed

text \<open>
  C1, as stated, fails when the stored last known-good offset is not below the
  buffer size on entry (here 20000 against a buffer of 16384 bytes) and every one
  of the three attempts is rejected: the stored offset is returned as it is, in
  both builds.
\<close>

theorem getbufpos_stale_counterexample:
  "card_dmasize aui_stale = 16384 \<and> \<not> (20000 < card_dmasize aui_stale) \<and>
   INTELICH_getbufpos True ext0 (hw_const 5) aui_stale world0 =
     Inr (20000, aui_stale, world0\<lparr>reads := 6\<rparr>) \<and>
   INTELICH_getbufpos False ext0 (hw_const 5) aui_stale world0 =
     Inr (20000, aui_stale\<lparr>card_infobits := 2\<rparr>,
          world0\<lparr>reads := 3, trace := [ClearBuf, Outb 0xF014 0]\<rparr>)"
  by (simp add: INTELICH_getbufpos_def test_defs numeral_3_eq_3 getbufpos_pass_def io_defs
      ICH_DMABUF_PERIODS_def Let_def ICH_PO_CIV_REG_def ICH_PO_PICB_REG_def)

text \<open>
  C1, amended.  With a card attached, \<open>INTELICH_getbufpos\<close> always returns.  The
  offset it returns is the stored last known-good offset afterwards, the buffer size
  is unchanged, and the offset is either the last known-good offset stored on entry
  or strictly below the buffer size.  So it is strictly below the buffer size
  whenever the offset stored on entry was.
\<close>

theorem getbufpos_below_dmasize:
  "card_private_data aui = Some crd \<Longrightarrow>
   \<exists>pos aui' w'.
     INTELICH_getbufpos sbemu ext h aui w = Inr (pos, aui', w') \<and>
     card_dma_lastgoodpos aui' = pos \<and>
     card_dmasize aui' = card_dmasize aui \<and>
     (pos = card_dma_lastgoodpos aui \<or> pos < card_dmasize aui) \<and>
     (card_dma_lastgoodpos aui < card_dmasize aui \<longrightarrow> pos < card_dmasize aui)"
proof -
  assume c: "card_private_data aui = Some crd"
  obtain a1 w1 where l: "getbufpos_loop sbemu ext h crd 3 aui w = (a1, w1)"
    by (metis surj_pair)
  from getbufpos_loop_inv [OF l] c l show ?thesis
    by (auto simp: INTELICH_getbufpos_def)
qed

theorem getbufpos_below_dmasize_witness:
  "card_private_data aui_open = Some (card0 DEVICE_INTEL) \<and>
   card_dma_lastgoodpos aui_open < card_dmasize aui_open \<and>
   (\<exists>pos aui' w'.
      INTELICH_getbufpos True ext0 (hw_const 2) aui_open world0 = Inr (pos, aui', w') \<and>
      pos < card_dmasize aui_open)"
  using getbufpos_below_dmasize [of aui_open "card0 DEVICE_INTEL" True ext0 "hw_const 2" world0]
  by (auto simp: aui_open_def aui0_def)

text \<open>
  C3, as stated, fails in the build without SBEMU on the first attempt: the
  current-index register reads 7 once, the attempt is used up, and the next attempt
  succeeds; nothing was cleared, nothing written and no flag set.
\<close>

theorem getbufpos_bad_index_counterexample:
  "INTELICH_getbufpos False ext0 hw_bad_index_once aui_open world0 =
     Inr (3896, aui_open\<lparr>card_dma_lastgoodpos := 3896\<rparr>, world0\<lparr>reads := 4\<rparr>) \<and>
   hw_bad_index_once 0 0xF014 AND 0xFF = 7 \<and>
   trace (world0\<lparr>reads := 4\<rparr>) = [] \<and>
   card_infobits (aui_open\<lparr>card_dma_lastgoodpos := 3896\<rparr>) = 0"
  by (simp add: INTELICH_getbufpos_def test_defs numeral_3_eq_3 getbufpos_pass_def io_defs
      ICH_DMABUF_PERIODS_def Let_def ICH_PO_CIV_REG_def ICH_PO_PICB_REG_def)

lemma getbufpos_pass_bad_index:
  "4 \<le> h (reads w) (baseport_bm crd + ICH_PO_CIV_REG) AND 0xFF \<Longrightarrow>
   getbufpos_pass False ext h crd retry aui w =
     (if retry > 1 then (False, aui, w\<lparr>reads := Suc (reads w)\<rparr>)
      else (False,
            aui\<lparr>card_infobits := card_infobits aui OR AUINFOS_CARDINFOBIT_DMAUNDERRUN ext\<rparr>,
            w\<lparr>reads := Suc (reads w),
              trace := trace w @ [ClearBuf, Outb (baseport_bm crd + ICH_PO_CIV_REG) 0]\<rparr>))"
  by (simp add: getbufpos_pass_def io_defs ICH_DMABUF_PERIODS_def)

text \<open>
  C3, amended.  In the build without SBEMU, a pass of the loop that reads a
  current index of 4 or more ends with \<open>continue\<close> after that one read.  While the
  retry counter is above 1 it does nothing else.  With the counter at 1 (the last
  attempt) it clears the buffer, writes 0 to the current-index register and sets the
  underrun flag.  Hence a call whose three reads of the current index are all out of
  range returns the stored offset after exactly one clear and one register write.
\<close>

theorem getbufpos_bad_index:
  "(4 \<le> h (reads w) (baseport_bm crd + ICH_PO_CIV_REG) AND 0xFF \<longrightarrow>
    getbufpos_pass False ext h crd retry aui w =
     (if retry > 1 then (False, aui, w\<lparr>reads := Suc (reads w)\<rparr>)
      else (False,
            aui\<lparr>card_infobits := card_infobits aui OR AUINFOS_CARDINFOBIT_DMAUNDERRUN ext\<rparr>,
            w\<lparr>reads := Suc (reads w),
              trace := trace w @ [ClearBuf, Outb (baseport_bm crd + ICH_PO_CIV_REG) 0]\<rparr>))) \<and>
   (card_private_data aui = Some crd \<and>
    4 \<le> h (reads w) (baseport_bm crd + ICH_PO_CIV_REG) AND 0xFF \<and>
    4 \<le> h (Suc (reads w)) (baseport_bm crd + ICH_PO_CIV_REG) AND 0xFF \<and>
    4 \<le> h (Suc (Suc (reads w))) (baseport_bm crd + ICH_PO_CIV_REG) AND 0xFF \<longrightarrow>
    INTELICH_getbufpos False ext h aui w =
      Inr (card_dma_lastgoodpos aui,
           aui\<lparr>card_infobits := card_infobits aui OR AUINFOS_CARDINFOBIT_DMAUNDERRUN ext\<rparr>,
           w\<lparr>reads := Suc (Suc (Suc (reads w))),
             trace := trace w @ [ClearBuf, Outb (baseport_bm crd + ICH_PO_CIV_REG) 0]\<rparr>))"
  by (simp add: getbufpos_pass_bad_index INTELICH_getbufpos_def numeral_3_eq_3)

theorem getbufpos_bad_index_witness:
  "card_private_data aui_open = Some (card0 DEVICE_INTEL) \<and>
   (4::u32) \<le> hw_const 5 0 0xF014 AND 0xFF \<and>
   INTELICH_getbufpos False ext0 (hw_const 5) aui_open world0 =
     Inr (0, aui_open\<lparr>card_infobits := 2\<rparr>,
          world0\<lparr>reads := 3, trace := [ClearBuf, Outb 0xF014 0]\<rparr>)"
  using getbufpos_bad_index [of "hw_const 5" world0 "card0 DEVICE_INTEL" ext0 1 aui_open]
  by (simp add: test_defs ICH_PO_CIV_REG_def numeral_3_eq_3)

subsection \<open>Polling loops and codec access leave trace and descriptor list alone\<close>

lemmas test2_defs = test_defs hw_ready_def aui_33000_def card_novra_def aui_freq_def









subsection \<open>SPDIF sample rate\<close>



subsection \<open>Buffer descriptor list\<close>

lemma fold_used_even:
  "fold (bdl_used_entry sbemu ext crd pss) xs m (j * 2) =
     (if j \<in> set xs
      then pds_cardmem_physicalptr ext (dm crd) (pcmout_buffer crd + of_nat j * period_size_bytes crd)
      else m (j * 2))"
  by (induction xs arbitrary: m) (auto simp: bdl_used_entry_def Let_def)

lemma fold_used_odd:
  "fold (bdl_used_entry sbemu ext crd pss) xs m (j * 2 + 1) =
     (if j \<in> set xs
      then (if device_type crd = DEVICE_SIS then period_size_bytes crd else pss) OR
           (if sbemu then push_bit 16 ICH_BD_IOC else 0)
      else m (j * 2 + 1))"
  by (induction xs arbitrary: m) (auto simp: bdl_used_entry_def Let_def)

lemma fold_unused_even:
  "fold bdl_unused_entry xs m (j * 2) = (if j \<in> set xs then 0 else m (j * 2))"
  by (induction xs arbitrary: m) (auto simp: bdl_unused_entry_def)

lemma fold_unused_odd:
  "fold bdl_unused_entry xs m (j * 2 + 1) = (if j \<in> set xs then 0 else m (j * 2 + 1))"
  by (induction xs arbitrary: m) (auto simp: bdl_unused_entry_def)

lemma period_table_layout:
  "(j < 4 \<longrightarrow>
      prepare_period_table sbemu ext crd pss m (j * 2) =
        pds_cardmem_physicalptr ext (dm crd) (pcmout_buffer crd + of_nat j * period_size_bytes crd) \<and>
      prepare_period_table sbemu ext crd pss m (j * 2 + 1) =
        (if device_type crd = DEVICE_SIS then period_size_bytes crd else pss) OR
        (if sbemu then push_bit 16 ICH_BD_IOC else 0)) \<and>
   (4 \<le> j \<and> j < 32 \<longrightarrow>
      prepare_period_table sbemu ext crd pss m (j * 2) = 0 \<and>
      prepare_period_table sbemu ext crd pss m (j * 2 + 1) = 0)"
proof -
  have a: "set [ICH_DMABUF_PERIODS ..< ICH_DMABUF_MAX_PERIODS] = {4 ..< 32}"
    by (simp only: set_upt ICH_DMABUF_PERIODS_def ICH_DMABUF_MAX_PERIODS_def)
  have b: "set [0 ..< ICH_DMABUF_PERIODS] = {0 ..< 4}"
    by (simp only: set_upt ICH_DMABUF_PERIODS_def)
  show ?thesis
    unfolding prepare_period_table_def fold_used_even fold_used_odd fold_unused_even
      fold_unused_odd a b
    by simp
qed

lemma setup_pcm_out_bits:
  "bits_card (fst (prepare_setup_pcm_out h crd aui w)) = bits_card aui \<or>
   bits_card (fst (prepare_setup_pcm_out h crd aui w)) = 32"
  by (auto simp: prepare_setup_pcm_out_def io_defs Let_def split: prod.splits)

lemma dac_rate_bits: "bits_card (fst (prepare_dac_rate ext h crd aui w)) = bits_card aui"
  by (auto simp: prepare_dac_rate_def Let_def)

lemma publish_bdl: "bdl_mem (prepare_publish ext crd w) = bdl_mem w"
  by (simp add: prepare_publish_def io_defs)

lemma len_low16:
  fixes len :: u32
  shows "len \<le> 0xFFFE \<Longrightarrow> (len OR (if sbemu then push_bit 16 ICH_BD_IOC else 0)) AND 0xFFFF = len"
proof -
  assume "len \<le> 0xFFFE"
  then have "uint len < 2 ^ 16" by (simp add: word_le_def)
  then have m: "len AND mask 16 = len" by (simp add: mask_eq_iff)
  have k: "(mask 16 :: u32) = 0xFFFF" by (simp add: mask_eq_exp_minus_1)
  have "(len OR (if sbemu then push_bit 16 ICH_BD_IOC else 0)) AND mask 16 = len AND mask 16"
    by (simp add: ICH_BD_IOC_def k bit.conj_disj_distrib2)
  with m k show ?thesis by simp
qed

lemmas test3_defs = test2_defs aui_24bit_def hw_cap20_def

text \<open>
  C2.  Whenever prepare gets as far as the period table (\<open>bits_card\<close> at least 8, so
  that the division by the bytes per sample does not trap; both callers set it to 16
  just before), it returns, and afterwards the descriptor list is laid out as
  follows.  Each of the entries 0 to 3 holds in its first word the physical address
  of the PCM buffer plus \<open>i\<close> times the period size in bytes, and in its second word
  the length, in bytes for SIS7012 and in samples otherwise, together with the
  interrupt-on-completion flag (bit 31) in the SBEMU build; for an accepted length
  (at most 0xFFFE) the low 16 bits of that word are the length.  Both words of each
  of the entries 4 to 31 are 0.  With a period of 4096 bytes entry 0 points to the
  buffer base and entry 3 to the base plus 12288.
\<close>

theorem prepare_period_table_layout:
  "drop_bit 3 (bits_card aui) \<noteq> 0 \<Longrightarrow>
   \<exists>aui' w'.
     snd_intel_prepare_playback sbemu ext h crd aui w = Inr (aui', w') \<and>
     (let len = (if device_type crd = DEVICE_SIS then period_size_bytes crd
                 else period_size_bytes crd div drop_bit 3 (bits_card aui'));
          ioc = (if sbemu then push_bit 16 ICH_BD_IOC else 0)
      in (\<forall>i. i < 4 \<longrightarrow>
            bdl_mem w' (i * 2) =
              pds_cardmem_physicalptr ext (dm crd)
                (pcmout_buffer crd + of_nat i * period_size_bytes crd) \<and>
            bdl_mem w' (i * 2 + 1) = len OR ioc \<and>
            (len \<le> 0xFFFE \<longrightarrow> bdl_mem w' (i * 2 + 1) AND 0xFFFF = len)) \<and>
         (\<forall>i. 4 \<le> i \<and> i < 32 \<longrightarrow> bdl_mem w' (i * 2) = 0 \<and> bdl_mem w' (i * 2 + 1) = 0) \<and>
         (period_size_bytes crd = 4096 \<longrightarrow>
            bdl_mem w' 0 = pds_cardmem_physicalptr ext (dm crd) (pcmout_buffer crd) \<and>
            bdl_mem w' 6 = pds_cardmem_physicalptr ext (dm crd) (pcmout_buffer crd + 12288)))"
proof -
  assume nz: "drop_bit 3 (bits_card aui) \<noteq> 0"
  define w2 where "w2 = prepare_wait_reset h crd w"
  define s3 where "s3 = prepare_setup_pcm_out h crd aui w2"
  define w4 where "w4 = prepare_spdif ext h crd (fst s3) (snd s3)"
  define s5 where "s5 = prepare_dac_rate ext h crd (fst s3) w4"
  define pss where "pss = period_size_bytes crd div drop_bit 3 (bits_card (fst s5))"
  define w6 where "w6 = (snd s5)\<lparr>bdl_mem := prepare_period_table sbemu ext crd pss (bdl_mem (snd s5))\<rparr>"
  define aui' where "aui' = (if sbemu then (fst s5)\<lparr>card_samples_per_int := pss div 2\<rparr> else fst s5)"
  define w' where "w' = prepare_publish ext crd w6"
  have bits: "bits_card (fst s5) = bits_card aui \<or> bits_card (fst s5) = 32"
    using setup_pcm_out_bits [of h crd aui w2] by (simp add: s5_def s3_def dac_rate_bits)
  have "drop_bit 3 (32 :: u32) \<noteq> 0" by simp
  with bits nz have nz5: "drop_bit 3 (bits_card (fst s5)) \<noteq> 0" by auto
  have run: "snd_intel_prepare_playback sbemu ext h crd aui w = Inr (aui', w')"
    using nz5
    by (simp add: snd_intel_prepare_playback_def Let_def w2_def s3_def w4_def s5_def pss_def
        w6_def aui'_def w'_def)
  have bc: "bits_card aui' = bits_card (fst s5)" by (simp add: aui'_def)
  have mem: "bdl_mem w' = prepare_period_table sbemu ext crd pss (bdl_mem (snd s5))"
    by (simp add: w'_def w6_def publish_bdl)
  have used: "\<And>i. i < 4 \<Longrightarrow>
      bdl_mem w' (i * 2) =
        pds_cardmem_physicalptr ext (dm crd) (pcmout_buffer crd + of_nat i * period_size_bytes crd) \<and>
      bdl_mem w' (i * 2 + 1) =
        (if device_type crd = DEVICE_SIS then period_size_bytes crd else pss) OR
        (if sbemu then push_bit 16 ICH_BD_IOC else 0)"
    using period_table_layout [of _ sbemu ext crd pss "bdl_mem (snd s5)"] by (simp add: mem)
  have unused: "\<And>i. 4 \<le> i \<Longrightarrow> i < 32 \<Longrightarrow> bdl_mem w' (i * 2) = 0 \<and> bdl_mem w' (i * 2 + 1) = 0"
    using period_table_layout [of _ sbemu ext crd pss "bdl_mem (snd s5)"] by (simp add: mem)
  have s0: "bdl_mem w' 0 = pds_cardmem_physicalptr ext (dm crd) (pcmout_buffer crd)"
    using used [of 0] by simp
  have s3a: "period_size_bytes crd = 4096 \<Longrightarrow>
      bdl_mem w' 6 = pds_cardmem_physicalptr ext (dm crd) (pcmout_buffer crd + 12288)"
    using used [of 3] by simp
  show ?thesis
    apply (rule exI [of _ aui'], rule exI [of _ w'])
    apply (simp only: run Let_def bc)
    using used unused s0 s3a len_low16 [of _ sbemu]
    apply (auto simp: pss_def)
    done
qed

theorem prepare_period_table_layout_witness:
  "drop_bit 3 (bits_card (aui0 (Some (card0 DEVICE_SIS)))) \<noteq> 0 \<and>
   period_size_bytes (card0 DEVICE_SIS) = 4096 \<and>
   period_size_bytes (card0 DEVICE_SIS) \<le> 0xFFFE \<and>
   (\<exists>aui' w'.
      snd_intel_prepare_playback True ext0 hw_ready (card0 DEVICE_SIS)
        (aui0 (Some (card0 DEVICE_SIS))) world0 = Inr (aui', w') \<and>
      bdl_mem w' 0 = 0x200100 \<and> bdl_mem w' 1 AND 0xFFFF = 4096 \<and>
      bdl_mem w' 6 = 0x203100 \<and> bdl_mem w' 7 = 0x80001000 \<and>
      bdl_mem w' 8 = 0 \<and> bdl_mem w' 63 = 0)"
proof -
  have nz: "drop_bit 3 (bits_card (aui0 (Some (card0 DEVICE_SIS)))) \<noteq> 0"
    by (simp add: aui0_def)
  from prepare_period_table_layout [OF nz, of True ext0 hw_ready "card0 DEVICE_SIS" world0]
  obtain aui' w' where
    run: "snd_intel_prepare_playback True ext0 hw_ready (card0 DEVICE_SIS)
            (aui0 (Some (card0 DEVICE_SIS))) world0 = Inr (aui', w')" and
    used: "\<And>i. i < 4 \<Longrightarrow>
             bdl_mem w' (i * 2) = 0x200100 + of_nat i * 4096 \<and>
             bdl_mem w' (i * 2 + 1) = 0x80001000 \<and>
             bdl_mem w' (i * 2 + 1) AND 0xFFFF = 4096" and
    unused: "\<And>i. 4 \<le> i \<Longrightarrow> i < 32 \<Longrightarrow> bdl_mem w' (i * 2) = 0 \<and> bdl_mem w' (i * 2 + 1) = 0"
    by (auto simp: Let_def card0_def ext0_def ICH_BD_IOC_def)
  from used [of 0] used [of 3] unused [of 4] unused [of 31] run nz show ?thesis
    by (simp add: card0_def)
qed

subsection \<open>Channel and sample format\<close>

lemma bit20_cleared:
  fixes x :: u32
  shows "(x AND NOT (ICH_PCM_246_MASK OR ICH_PCM_20BIT)) AND ICH_PCM_20BIT = 0"
  by (simp add: ICH_PCM_246_MASK_def ICH_PCM_20BIT_def and.assoc)

lemma bit20_cleared':
  fixes x :: u32
  shows "(x AND NOT ICH_PCM_246_MASK AND NOT ICH_PCM_20BIT) AND ICH_PCM_20BIT = 0"
  by (simp add: and.assoc)

lemma bit20_set:
  fixes x :: u32
  shows "(x OR ICH_PCM_20BIT) AND ICH_PCM_20BIT = ICH_PCM_20BIT"
  by (simp add: bit.conj_disj_distrib2 and.commute)

lemma bit20_sis:
  fixes x :: u32
  shows "(x AND NOT ICH_SIS_PCM_246_MASK) AND ICH_PCM_20BIT = x AND ICH_PCM_20BIT"
  by (simp add: ICH_SIS_PCM_246_MASK_def ICH_PCM_20BIT_def and.assoc)

text \<open>
  C6.  The format step of prepare reads the global control register, and for an ICH4
  with more than 16 bits requested also the global status register.  The 20-bit path
  is taken exactly when the family is ICH4, more than 16 bits are requested and the
  capability bits read back equal the 16-/20-bit value: then the 20-bit-sample bit is
  set in the word written to global control and \<open>bits_card\<close> becomes 32.  In every
  other case the host structure is left as it is, so the 16 bits that
  \<open>INTELICH_setrate\<close> has set remain, and the 20-bit-sample bit is not set: it is clear
  in the word written for the Standard, ICH4 and NForce families, and for SIS7012,
  where only the channel mask is cleared, it is written back as it was read.
\<close>

theorem setup_pcm_out_20bit:
  "(let cmd0 = h (reads w) (baseport_bm crd + ICH_GLOB_CNT_REG);
        st = h (Suc (reads w)) (baseport_bm crd + ICH_GLOB_STAT_REG);
        path20 = (device_type crd = DEVICE_INTEL_ICH4 \<and> 16 < bits_set aui \<and>
                  st AND ICH_SAMPLE_CAP = ICH_SAMPLE_16_20)
    in \<exists>v w'.
         prepare_setup_pcm_out h crd aui w = (if path20 then aui\<lparr>bits_card := 32\<rparr> else aui, w') \<and>
         trace w' = trace w @ [Outl (baseport_bm crd + ICH_GLOB_CNT_REG) v] \<and>
         (path20 \<longrightarrow> v AND ICH_PCM_20BIT = ICH_PCM_20BIT) \<and>
         (\<not> path20 \<longrightarrow>
            v AND ICH_PCM_20BIT =
              (if device_type crd = DEVICE_SIS then cmd0 AND ICH_PCM_20BIT else 0)) \<and>
         bits_card (fst (prepare_setup_pcm_out h crd (setrate_format ext crd aui) w)) =
           (if path20 then 32 else 16))"
  by (auto simp: Let_def prepare_setup_pcm_out_def io_defs setrate_format_def
      bit20_cleared bit20_cleared' bit20_set bit20_sis)

theorem setup_pcm_out_20bit_witness:
  "\<not> (device_type (card0 DEVICE_INTEL) = DEVICE_INTEL_ICH4) \<and>
   16 < bits_set (aui_24bit DEVICE_INTEL) \<and>
   fst (prepare_setup_pcm_out hw_cap20 (card0 DEVICE_INTEL) (aui_24bit DEVICE_INTEL) world0) =
     aui_24bit DEVICE_INTEL \<and>
   bits_card (fst (prepare_setup_pcm_out hw_cap20 (card0 DEVICE_INTEL)
                     (setrate_format ext0 (card0 DEVICE_INTEL) (aui_24bit DEVICE_INTEL)) world0)) = 16 \<and>
   device_type (card0 DEVICE_INTEL_ICH4) = DEVICE_INTEL_ICH4 \<and>
   16 < bits_set (aui_24bit DEVICE_INTEL_ICH4) \<and>
   hw_cap20 1 0xF030 AND ICH_SAMPLE_CAP = ICH_SAMPLE_16_20 \<and>
   bits_card (fst (prepare_setup_pcm_out hw_cap20 (card0 DEVICE_INTEL_ICH4)
                     (aui_24bit DEVICE_INTEL_ICH4) world0)) = 32"
  using setup_pcm_out_20bit [of hw_cap20 world0 "card0 DEVICE_INTEL" "aui_24bit DEVICE_INTEL" ext0]
    setup_pcm_out_20bit [of hw_cap20 world0 "card0 DEVICE_INTEL_ICH4" "aui_24bit DEVICE_INTEL_ICH4" ext0]
  by (auto simp: Let_def test3_defs ICH_GLOB_STAT_REG_def ICH_SAMPLE_CAP_def ICH_SAMPLE_16_20_def)


subsection \<open>Set rate\<close>

lemma retry_loop_timer:
  assumes "\<And>w b w'. body w = (b, w') \<Longrightarrow> timer_reads w' = timer_reads w"
  shows "timer_reads (snd (retry_loop body n w)) = timer_reads w"
proof (induction n arbitrary: w)
  case 0
  show ?case by simp
next
  case (Suc n)
  obtain b w1 where b: "body w = (b, w1)" by (metis surj_pair)
  from assms [OF b] Suc [of w1] b show ?case by (cases b) auto
qed

lemma codec_ready_timer:
  "timer_reads (snd (snd_intel_codec_ready h crd c w)) = timer_reads w"
  unfolding snd_intel_codec_ready_def Let_def
  by (rule retry_loop_timer) (auto simp: io_defs)

lemma codec_semaphore_timer:
  "timer_reads (snd_intel_codec_semaphore h crd c w) = timer_reads w"
proof -
  let ?body = "\<lambda>w. case snd_intel_read_8 h crd ICH_ACC_SEMA_REG w of
                          (v, w') \<Rightarrow> (v AND ICH_CODEC_BUSY = 0, w')"
  have q: "\<And>w. timer_reads (snd (retry_loop ?body ICH_DEFAULT_RETRY w)) = timer_reads w"
    by (rule retry_loop_timer) (auto simp: io_defs)
  show ?thesis
    using codec_ready_timer [of h crd c w]
      q [of "snd (snd_intel_codec_ready h crd c w)"]
    by (auto simp: snd_intel_codec_semaphore_def inw_def split: prod.splits)
qed

lemma codec_read_loop_timer:
  "timer_reads (snd (codec_read_loop h crd reg n d w)) = timer_reads w"
  by (induction n arbitrary: d w) (auto simp: io_defs split: prod.splits)

lemma codec_read_timer:
  "timer_reads (snd (snd_intel_codec_read h crd reg w)) = timer_reads w"
  by (simp add: snd_intel_codec_read_def codec_read_loop_timer codec_semaphore_timer)

lemma codec_write_timer:
  "timer_reads (snd_intel_codec_write h crd reg d w) = timer_reads w"
  by (simp add: snd_intel_codec_write_def outw_def emit_def codec_semaphore_timer)

lemma wait_reset_timer: "timer_reads (prepare_wait_reset h crd w) = timer_reads w"
proof -
  let ?body = "\<lambda>w. case snd_intel_read_8 h crd (ICH_PO_SR_REG (device_type crd)) w of
                     (v, w') \<Rightarrow> (v AND ICH_PO_SR_DCH \<noteq> 0, w')"
  have "timer_reads (snd (retry_loop ?body ICH_DEFAULT_RETRY w)) = timer_reads w"
    by (rule retry_loop_timer) (auto simp: io_defs)
  then show ?thesis
    by (auto simp: prepare_wait_reset_def io_defs split: prod.splits)
qed

lemma setup_pcm_out_frame:
  "timer_reads (snd (prepare_setup_pcm_out h crd aui w)) = timer_reads w \<and>
   freq_card (fst (prepare_setup_pcm_out h crd aui w)) = freq_card aui \<and>
   card_private_data (fst (prepare_setup_pcm_out h crd aui w)) = card_private_data aui"
  by (auto simp: prepare_setup_pcm_out_def io_defs Let_def split: prod.splits)

lemma spdif_timer: "timer_reads (prepare_spdif ext h crd aui w) = timer_reads w"
proof -
  obtain cmd w1 where r: "snd_intel_codec_read h crd (AC97_SPDIF_CONTROL ext) w = (cmd, w1)"
    by (metis surj_pair)
  have "timer_reads w1 = timer_reads w"
    using codec_read_timer [of h crd "AC97_SPDIF_CONTROL ext" w] r by simp
  then show ?thesis by (simp add: prepare_spdif_def Let_def r codec_write_timer)
qed

lemma dac_rate_frame:
  "timer_reads (snd (prepare_dac_rate ext h crd aui w)) = timer_reads w \<and>
   card_private_data (fst (prepare_dac_rate ext h crd aui w)) = card_private_data aui \<and>
   freq_card (fst (prepare_dac_rate ext h crd aui w)) =
     (if corrector_nonzero ext (ac97_clock_corrector crd) \<and> vra crd = 0
      then freq_over_corrector ext (freq_card aui) (ac97_clock_corrector crd)
      else freq_card aui)"
  by (auto simp: prepare_dac_rate_def Let_def codec_write_timer)

lemma publish_timer: "timer_reads (prepare_publish ext crd w) = timer_reads w"
  by (simp add: prepare_publish_def io_defs)

lemma prepare_result:
  assumes nz: "bits_card aui = 16"
  shows "\<exists>aui' w'.
     snd_intel_prepare_playback sbemu ext h crd aui w = Inr (aui', w') \<and>
     card_private_data aui' = card_private_data aui \<and>
     timer_reads w' = timer_reads w \<and>
     freq_card aui' =
       (if corrector_nonzero ext (ac97_clock_corrector crd) \<and> vra crd = 0
        then freq_over_corrector ext (freq_card aui) (ac97_clock_corrector crd)
        else freq_card aui)"
proof -
  define w2 where "w2 = prepare_wait_reset h crd w"
  define s3 where "s3 = prepare_setup_pcm_out h crd aui w2"
  define w4 where "w4 = prepare_spdif ext h crd (fst s3) (snd s3)"
  define s5 where "s5 = prepare_dac_rate ext h crd (fst s3) w4"
  define pss where "pss = period_size_bytes crd div drop_bit 3 (bits_card (fst s5))"
  define w6 where "w6 = (snd s5)\<lparr>bdl_mem := prepare_period_table sbemu ext crd pss (bdl_mem (snd s5))\<rparr>"
  define aui' where "aui' = (if sbemu then (fst s5)\<lparr>card_samples_per_int := pss div 2\<rparr> else fst s5)"
  define w' where "w' = prepare_publish ext crd w6"
  have bits: "bits_card (fst s5) = 16 \<or> bits_card (fst s5) = 32"
    using setup_pcm_out_bits [of h crd aui w2] nz by (simp add: s5_def s3_def dac_rate_bits)
  have "drop_bit 3 (32 :: u32) \<noteq> 0" "drop_bit 3 (16 :: u32) \<noteq> 0" by simp_all
  with bits have nz5: "drop_bit 3 (bits_card (fst s5)) \<noteq> 0" by auto
  have run: "snd_intel_prepare_playback sbemu ext h crd aui w = Inr (aui', w')"
    using nz5
    by (simp add: snd_intel_prepare_playback_def Let_def w2_def s3_def w4_def s5_def pss_def
        w6_def aui'_def w'_def)
  have t: "timer_reads w' = timer_reads w"
    using setup_pcm_out_frame [of h crd aui w2] dac_rate_frame [of ext h crd "fst s3" w4]
    by (simp add: w'_def w6_def publish_timer s5_def w4_def spdif_timer s3_def w2_def
        wait_reset_timer)
  have c: "card_private_data aui' = card_private_data aui"
    using setup_pcm_out_frame [of h crd aui w2] dac_rate_frame [of ext h crd "fst s3" w4]
    by (simp add: aui'_def s5_def s3_def)
  have f: "freq_card aui' =
       (if corrector_nonzero ext (ac97_clock_corrector crd) \<and> vra crd = 0
        then freq_over_corrector ext (freq_card aui) (ac97_clock_corrector crd)
        else freq_card aui)"
    using setup_pcm_out_frame [of h crd aui w2] dac_rate_frame [of ext h crd "fst s3" w4]
    by (simp add: aui'_def s5_def s3_def)
  from run t c f show ?thesis by blast
qed


lemma measure_poll_returns:
  "starttime + 1000000 < pds_gettimeu ext (timer_reads w + n) \<Longrightarrow>
   measure_poll ext h crd starttime w \<noteq> None"
proof (induction n arbitrary: w)
  case 0
  then show ?case
    by (subst measure_poll.simps) (auto simp: Let_def gettimeu_def io_defs)
next
  case (Suc n)
  define r1 where "r1 = snd_intel_read_8 h crd ICH_PO_CIV_REG w"
  define r2 where "r2 = (if fst r1 \<ge> of_nat (ICH_DMABUF_PERIODS - 1)
                         then snd_intel_read_8 h crd ICH_PO_CIV_REG (snd r1) else r1)"
  have t2: "timer_reads (snd r2) = timer_reads w"
    by (simp add: r2_def r1_def io_defs)
  define w' where "w' = snd (gettimeu ext (snd r2))"
  have "timer_reads w' + n = timer_reads w + Suc n"
    by (simp add: w'_def gettimeu_def t2)
  with Suc.prems have "starttime + 1000000 < pds_gettimeu ext (timer_reads w' + n)" by simp
  from Suc.IH [OF this] have "measure_poll ext h crd starttime w' \<noteq> None" .
  then show ?case
    by (subst measure_poll.simps) (auto simp: Let_def r1_def r2_def w'_def)
qed

lemma start_attached:
  "card_private_data aui = Some crd \<Longrightarrow>
   \<exists>w'. INTELICH_start sbemu h aui w = Inr w' \<and> timer_reads w' = timer_reads w"
  using codec_ready_timer [of h crd ICH_GLOB_STAT_PCR w]
  by (auto simp: INTELICH_start_def io_defs split: prod.splits)

lemma stop_attached:
  "card_private_data aui = Some crd \<Longrightarrow> \<exists>w'. INTELICH_stop h aui w = Inr w'"
  by (auto simp: INTELICH_stop_def split: prod.splits)

lemma measure_result:
  assumes att: "card_private_data aui = Some crd"
    and keep: "\<forall>a s p l. bits_card (snd (MDma_init_pcmoutbuf ext a s p l)) = bits_card a"
  shows "(snd_intel_measure_ac97_clock sbemu ext h aui w = None \<or>
          (\<exists>aui1 w1 crd1.
             snd_intel_measure_ac97_clock sbemu ext h aui w = Some (Inr (aui1, w1)) \<and>
             freq_card aui1 = freq_card aui \<and>
             card_private_data aui1 = Some crd1 \<and> vra crd1 = vra crd)) \<and>
         ((\<exists>k. pds_gettimeu ext (timer_reads w) + 1000000 <
                pds_gettimeu ext (Suc (timer_reads w) + k)) \<longrightarrow>
          snd_intel_measure_ac97_clock sbemu ext h aui w \<noteq> None)"
proof -
  define aui1 where "aui1 = aui\<lparr>freq_card := 48000, chan_card := 2, bits_card := 16\<rparr>"
  define size0 where "size0 = (if pcmout_bufsize crd <s AUCARDS_DMABUFSIZE_NORMAL ext
                        then pcmout_bufsize crd else AUCARDS_DMABUFSIZE_NORMAL ext)"
  define r where "r = MDma_init_pcmoutbuf ext aui1 size0 (of_nat (ICH_DMABUF_MAX_PERIODS * 8)) 0"
  define crd1 where "crd1 = crd\<lparr>period_size_bytes :=
                        word_of_int (sint (fst r) sdiv int ICH_DMABUF_PERIODS)\<rparr>"
  define aui2 where "aui2 = (snd r)\<lparr>card_private_data := Some crd1\<rparr>"
  have b2: "bits_card aui2 = 16"
    using keep by (simp add: aui2_def r_def aui1_def)
  from prepare_result [OF b2, of sbemu ext h crd1 w]
  obtain aui3 w3 where
    p: "snd_intel_prepare_playback sbemu ext h crd1 aui2 w = Inr (aui3, w3)" and
    c3: "card_private_data aui3 = Some crd1" and
    t3: "timer_reads w3 = timer_reads w"
    by (auto simp: aui2_def)
  define c5 where "c5 = (if sbemu
                             then (case snd_intel_read_8 h crd1 ICH_PO_CR_REG (MDma_clearbuf w3) of
                                     (cr, w') \<Rightarrow> (cr, snd_intel_write_8 crd1 ICH_PO_CR_REG 0 w'))
                             else (0, MDma_clearbuf w3))"
  have t5: "timer_reads (snd c5) = timer_reads w"
    by (simp add: c5_def io_defs t3)
  from start_attached [OF c3, of sbemu h "snd c5"] t5
  obtain w6 where s: "INTELICH_start sbemu h aui3 (snd c5) = Inr w6"
    and t6: "timer_reads w6 = timer_reads w" by auto
  define t0 where "t0 = gettimeu ext w6"
  have t0f: "fst t0 = pds_gettimeu ext (timer_reads w)"
    and t0s: "timer_reads (snd t0) = Suc (timer_reads w)"
    by (simp_all add: t0_def gettimeu_def t6)
  have unfold: "snd_intel_measure_ac97_clock sbemu ext h aui w =
      (case measure_poll ext h crd1 (fst t0) (snd t0) of
         None \<Rightarrow> None
       | Some w8 \<Rightarrow>
           (let t1 = gettimeu ext w8;
                timelen = (if fst t1 > fst t0 then fst t1 - fst t0 else 0)
            in case INTELICH_stop h aui3 (snd t1) of
                 Inl e \<Rightarrow> Some (Inl e)
               | Inr w10 \<Rightarrow>
                   (let w11 = (if sbemu
                               then snd_intel_write_8 crd1 ICH_PO_CR_REG (fst c5) w10
                               else w10);
                        crd2 = crd1\<lparr>ac97_clock_corrector :=
                                      measured_corrector ext crd1 aui3 timelen,
                                    ac97_clock_detected := 1\<rparr>
                    in Some (Inr (aui3\<lparr>freq_card := freq_card aui,
                                      card_private_data := Some crd2\<rparr>,
                                  w11)))))"
    using att p s
    unfolding t0_def c5_def aui2_def crd1_def r_def size0_def aui1_def
    by (simp only: snd_intel_measure_ac97_clock_def Let_def option.case sum.case prod.case)
  have first: "snd_intel_measure_ac97_clock sbemu ext h aui w = None \<or>
          (\<exists>aui1 w1 crd1.
             snd_intel_measure_ac97_clock sbemu ext h aui w = Some (Inr (aui1, w1)) \<and>
             freq_card aui1 = freq_card aui \<and>
             card_private_data aui1 = Some crd1 \<and> vra crd1 = vra crd)"
  proof (cases "measure_poll ext h crd1 (fst t0) (snd t0)")
    case None
    then show ?thesis by (simp add: unfold)
  next
    case (Some w8)
    from stop_attached [OF c3, of h "snd (gettimeu ext w8)"]
    obtain w10 where st: "INTELICH_stop h aui3 (snd (gettimeu ext w8)) = Inr w10" by auto
    have v: "vra crd1 = vra crd" by (simp add: crd1_def)
    show ?thesis
      by (rule disjI2) (simp add: unfold Some Let_def st v)
  qed
  have second: "(\<exists>k. pds_gettimeu ext (timer_reads w) + 1000000 <
                pds_gettimeu ext (Suc (timer_reads w) + k)) \<longrightarrow>
          snd_intel_measure_ac97_clock sbemu ext h aui w \<noteq> None"
  proof
    assume "\<exists>k. pds_gettimeu ext (timer_reads w) + 1000000 <
                pds_gettimeu ext (Suc (timer_reads w) + k)"
    then obtain k where "fst t0 + 1000000 < pds_gettimeu ext (timer_reads (snd t0) + k)"
      by (auto simp: t0f t0s)
    from measure_poll_returns [OF this, of h crd1]
    obtain w8 where m: "measure_poll ext h crd1 (fst t0) (snd t0) = Some w8" by auto
    from stop_attached [OF c3, of h "snd (gettimeu ext w8)"]
    obtain w10 where st: "INTELICH_stop h aui3 (snd (gettimeu ext w8)) = Inr w10" by auto
    show "snd_intel_measure_ac97_clock sbemu ext h aui w \<noteq> None"
      by (simp add: unfold m Let_def st)
  qed
  from first second show ?thesis by blast
qed


lemma setrate_format_freq:
  "freq_card (setrate_format ext crd aui) =
     (if vra crd = 0 then 48000
      else if freq_card aui < 8000 then 8000
      else if 48000 < freq_card aui then 48000
      else freq_card aui) \<and>
   bits_card (setrate_format ext crd aui) = 16"
  by (simp add: setrate_format_def Let_def)

lemma setrate_prepare_result:
  assumes b: "bits_card aui = 16"
    and keep: "\<forall>a s p l. freq_card (snd (MDma_init_pcmoutbuf ext a s p l)) = freq_card a \<and>
                         bits_card (snd (MDma_init_pcmoutbuf ext a s p l)) = bits_card a"
  shows "\<exists>aui' crd' w'.
     setrate_prepare sbemu ext h crd aui w = Inr (aui', w') \<and>
     card_private_data aui' = Some crd' \<and> vra crd' = vra crd \<and>
     ac97_clock_corrector crd' = ac97_clock_corrector crd \<and>
     freq_card aui' =
       (if corrector_nonzero ext (ac97_clock_corrector crd) \<and> vra crd = 0
        then freq_over_corrector ext (freq_card aui) (ac97_clock_corrector crd)
        else freq_card aui)"
proof -
  define r where "r = MDma_init_pcmoutbuf ext aui (pcmout_bufsize crd)
             (of_nat (ICH_DMABUF_MAX_PERIODS * 8)) 0"
  define crd1 where "crd1 = crd\<lparr>period_size_bytes := fst r div of_nat ICH_DMABUF_PERIODS\<rparr>"
  define aui1 where "aui1 = (snd r)\<lparr>card_private_data := Some crd1\<rparr>"
  have b1: "bits_card aui1 = 16" and f1: "freq_card aui1 = freq_card aui"
    using keep b by (simp_all add: aui1_def r_def)
  have eq: "setrate_prepare sbemu ext h crd aui w =
      snd_intel_prepare_playback sbemu ext h crd1 aui1 w"
    unfolding aui1_def crd1_def r_def
    by (simp only: setrate_prepare_def Let_def split_beta)
  from prepare_result [OF b1, of sbemu ext h crd1 w]
  obtain aui' w' where
    p: "snd_intel_prepare_playback sbemu ext h crd1 aui1 w = Inr (aui', w')" and
    c: "card_private_data aui' = Some crd1" and
    f: "freq_card aui' =
       (if corrector_nonzero ext (ac97_clock_corrector crd1) \<and> vra crd1 = 0
        then freq_over_corrector ext (freq_card aui1) (ac97_clock_corrector crd1)
        else freq_card aui1)"
    by (auto simp: aui1_def)
  have v: "vra crd1 = vra crd" "ac97_clock_corrector crd1 = ac97_clock_corrector crd"
    by (simp_all add: crd1_def)
  from eq p c f v f1 show ?thesis by auto
qed

lemma setrate_result:
  assumes att: "card_private_data aui = Some crd"
    and keep: "\<forall>a s p l. freq_card (snd (MDma_init_pcmoutbuf ext a s p l)) = freq_card a \<and>
                         bits_card (snd (MDma_init_pcmoutbuf ext a s p l)) = bits_card a"
  shows "(INTELICH_setrate sbemu ext h aui w = None \<or>
          (\<exists>aui' crd' w'.
             INTELICH_setrate sbemu ext h aui w = Some (Inr (aui', w')) \<and>
             card_private_data aui' = Some crd' \<and> vra crd' = vra crd \<and>
             (device_type crd \<noteq> DEVICE_INTEL \<or> ac97_clock_detected crd \<noteq> 0 \<longrightarrow>
                ac97_clock_corrector crd' = ac97_clock_corrector crd) \<and>
             freq_card aui' =
               (if vra crd \<noteq> 0 then freq_card (setrate_format ext crd aui)
                else if corrector_nonzero ext (ac97_clock_corrector crd')
                     then freq_over_corrector ext 48000 (ac97_clock_corrector crd')
                     else 48000))) \<and>
         (device_type crd \<noteq> DEVICE_INTEL \<or> ac97_clock_detected crd \<noteq> 0 \<or>
          (\<exists>k. pds_gettimeu ext (timer_reads w) + 1000000 <
                pds_gettimeu ext (Suc (timer_reads w) + k)) \<longrightarrow>
          INTELICH_setrate sbemu ext h aui w \<noteq> None)"
proof (cases "device_type crd = DEVICE_INTEL \<and> ac97_clock_detected crd = 0")
  case False
  have eq: "INTELICH_setrate sbemu ext h aui w =
      Some (setrate_prepare sbemu ext h crd (setrate_format ext crd aui) w)"
    using att False by (auto simp: INTELICH_setrate_def)
  from setrate_prepare_result [OF conjunct2 [OF setrate_format_freq] keep]
  obtain aui' crd' w' where
    "setrate_prepare sbemu ext h crd (setrate_format ext crd aui) w = Inr (aui', w')"
    "card_private_data aui' = Some crd'" "vra crd' = vra crd"
    "ac97_clock_corrector crd' = ac97_clock_corrector crd"
    "freq_card aui' =
       (if corrector_nonzero ext (ac97_clock_corrector crd) \<and> vra crd = 0
        then freq_over_corrector ext (freq_card (setrate_format ext crd aui)) (ac97_clock_corrector crd)
        else freq_card (setrate_format ext crd aui))"
    by blast
  moreover have "vra crd = 0 \<Longrightarrow> freq_card (setrate_format ext crd aui) = 48000"
    by (simp add: setrate_format_freq)
  ultimately show ?thesis
    using eq by auto
next
  case True
  have keepb: "\<forall>a s p l. bits_card (snd (MDma_init_pcmoutbuf ext a s p l)) = bits_card a"
    using keep by simp
  note m = measure_result [OF att keepb, of sbemu h w]
  show ?thesis
  proof (cases "snd_intel_measure_ac97_clock sbemu ext h aui w")
    case None
    with att True have "INTELICH_setrate sbemu ext h aui w = None"
      by (simp add: INTELICH_setrate_def)
    with m None True show ?thesis by auto
  next
    case (Some r)
    with m obtain aui1 w1 crd1 where
      r: "snd_intel_measure_ac97_clock sbemu ext h aui w = Some (Inr (aui1, w1))" and
      f1: "freq_card aui1 = freq_card aui" and
      c1: "card_private_data aui1 = Some crd1" and v1: "vra crd1 = vra crd"
      by auto
    have eq: "INTELICH_setrate sbemu ext h aui w =
        Some (setrate_prepare sbemu ext h crd1 (setrate_format ext crd1 aui1) w1)"
      using att True r c1 by (simp add: INTELICH_setrate_def)
    have ff: "freq_card (setrate_format ext crd1 aui1) = freq_card (setrate_format ext crd aui)"
      by (simp add: conjunct1 [OF setrate_format_freq] f1 v1)
    from setrate_prepare_result [OF conjunct2 [OF setrate_format_freq] keep]
    obtain aui' crd' w' where
      "setrate_prepare sbemu ext h crd1 (setrate_format ext crd1 aui1) w1 = Inr (aui', w')"
      "card_private_data aui' = Some crd'" "vra crd' = vra crd1"
      "ac97_clock_corrector crd' = ac97_clock_corrector crd1"
      "freq_card aui' =
         (if corrector_nonzero ext (ac97_clock_corrector crd1) \<and> vra crd1 = 0
          then freq_over_corrector ext (freq_card (setrate_format ext crd1 aui1)) (ac97_clock_corrector crd1)
          else freq_card (setrate_format ext crd1 aui1))"
      by blast
    moreover have "vra crd = 0 \<Longrightarrow> freq_card (setrate_format ext crd aui) = 48000"
      by (simp add: setrate_format_freq)
    ultimately show ?thesis
      using eq True v1 ff by auto
  qed
qed


text \<open>
  C5, as stated, fails without variable rate audio once a clock corrector is stored:
  the clamp sets 48000, but prepare then replaces the card frequency by the
  frequency divided by the corrector.  With a corrector of 0.8 the call leaves 59999
  in the host structure, whatever was requested.
\<close>

theorem setrate_corrector_counterexample:
  "vra card_corr = 0 \<and> card_private_data aui_corr = Some card_corr \<and>
   result_freq_card (INTELICH_setrate True ext_q24 hw_ready aui_corr world0) = Some 59999"
proof -
  have att: "card_private_data aui_corr = Some card_corr" by (simp add: aui_corr_def)
  have keep: "\<forall>a s p l. freq_card (snd (MDma_init_pcmoutbuf ext_q24 a s p l)) = freq_card a \<and>
                         bits_card (snd (MDma_init_pcmoutbuf ext_q24 a s p l)) = bits_card a"
    by (simp add: ext_q24_def)
  from setrate_result [OF att keep, of True hw_ready world0]
  have "result_freq_card (INTELICH_setrate True ext_q24 hw_ready aui_corr world0) = Some 59999"
    by (auto simp: result_freq_card_def card_corr_def ext_q24_def)
  with att show ?thesis by (simp add: card_corr_def)
qed

text \<open>
  C5, amended.  Take an attached card and a DMA helper \<open>MDma_init_pcmoutbuf\<close> that
  leaves frequency and sample width of the host structure alone.  The frequency with
  which \<open>INTELICH_setrate\<close> goes on to set up the buffer and to prepare playback is
  48000 without variable rate audio; with it, it lies in [8000, 48000], a request
  below 8000 gives 8000, a request above 48000 gives 48000 and a request in the range
  is kept.  The call never faults.  When it returns, the card frequency it leaves is,
  with variable rate audio, that clamped frequency; without variable rate audio it
  is 48000 if the card then holds no clock corrector, and 48000 divided by the
  corrector (converted to an integer) if it does.  The corrector is the one the card
  had on entry unless the clock was measured in this call.  The call returns
  whenever no clock measurement is due, and also when one is due and the timer at
  some later reading has passed the start time by more than one second.
\<close>

theorem setrate_clamps_frequency:
  "card_private_data aui = Some crd \<Longrightarrow>
   \<forall>a s p l. freq_card (snd (MDma_init_pcmoutbuf ext a s p l)) = freq_card a \<and>
             bits_card (snd (MDma_init_pcmoutbuf ext a s p l)) = bits_card a \<Longrightarrow>
   (vra crd = 0 \<longrightarrow> freq_card (setrate_format ext crd aui) = 48000) \<and>
   (vra crd \<noteq> 0 \<longrightarrow>
      8000 \<le> freq_card (setrate_format ext crd aui) \<and>
      freq_card (setrate_format ext crd aui) \<le> 48000 \<and>
      (freq_card aui < 8000 \<longrightarrow> freq_card (setrate_format ext crd aui) = 8000) \<and>
      (48000 < freq_card aui \<longrightarrow> freq_card (setrate_format ext crd aui) = 48000) \<and>
      (8000 \<le> freq_card aui \<and> freq_card aui \<le> 48000 \<longrightarrow>
         freq_card (setrate_format ext crd aui) = freq_card aui)) \<and>
   (INTELICH_setrate sbemu ext h aui w = None \<or>
    (\<exists>aui' crd' w'.
       INTELICH_setrate sbemu ext h aui w = Some (Inr (aui', w')) \<and>
       card_private_data aui' = Some crd' \<and> vra crd' = vra crd \<and>
       (device_type crd \<noteq> DEVICE_INTEL \<or> ac97_clock_detected crd \<noteq> 0 \<longrightarrow>
          ac97_clock_corrector crd' = ac97_clock_corrector crd) \<and>
       freq_card aui' =
         (if vra crd \<noteq> 0 then freq_card (setrate_format ext crd aui)
          else if corrector_nonzero ext (ac97_clock_corrector crd')
               then freq_over_corrector ext 48000 (ac97_clock_corrector crd')
               else 48000))) \<and>
   (device_type crd \<noteq> DEVICE_INTEL \<or> ac97_clock_detected crd \<noteq> 0 \<or>
    (\<exists>k. pds_gettimeu ext (timer_reads w) + 1000000 <
          pds_gettimeu ext (Suc (timer_reads w) + k)) \<longrightarrow>
    INTELICH_setrate sbemu ext h aui w \<noteq> None)"
proof -
  assume att: "card_private_data aui = Some crd"
    and keep: "\<forall>a s p l. freq_card (snd (MDma_init_pcmoutbuf ext a s p l)) = freq_card a \<and>
             bits_card (snd (MDma_init_pcmoutbuf ext a s p l)) = bits_card a"
  have "vra crd = 0 \<longrightarrow> freq_card (setrate_format ext crd aui) = 48000"
    by (simp add: setrate_format_def Let_def)
  moreover have "vra crd \<noteq> 0 \<longrightarrow>
      8000 \<le> freq_card (setrate_format ext crd aui) \<and>
      freq_card (setrate_format ext crd aui) \<le> 48000 \<and>
      (freq_card aui < 8000 \<longrightarrow> freq_card (setrate_format ext crd aui) = 8000) \<and>
      (48000 < freq_card aui \<longrightarrow> freq_card (setrate_format ext crd aui) = 48000) \<and>
      (8000 \<le> freq_card aui \<and> freq_card aui \<le> 48000 \<longrightarrow>
         freq_card (setrate_format ext crd aui) = freq_card aui)"
    by (auto simp: setrate_format_def Let_def word_less_nat_alt word_le_nat_alt)
  ultimately show ?thesis
    using setrate_result [OF att keep, of sbemu h w] by blast
qed

theorem setrate_clamps_frequency_witness:
  "card_private_data (aui_freq 96000) = Some (card0 DEVICE_INTEL) \<and>
   vra (card0 DEVICE_INTEL) \<noteq> 0 \<and> ac97_clock_detected (card0 DEVICE_INTEL) \<noteq> 0 \<and>
   48000 < freq_card (aui_freq 96000) \<and>
   result_freq_card (INTELICH_setrate True ext0 hw_ready (aui_freq 96000) world0) = Some 48000 \<and>
   freq_card (aui_freq 4000) < 8000 \<and>
   result_freq_card (INTELICH_setrate True ext0 hw_ready (aui_freq 4000) world0) = Some 8000 \<and>
   8000 \<le> freq_card (aui_freq 22050) \<and> freq_card (aui_freq 22050) \<le> 48000 \<and>
   result_freq_card (INTELICH_setrate True ext0 hw_ready (aui_freq 22050) world0) = Some 22050 \<and>
   card_private_data aui_novra = Some card_novra \<and> vra card_novra = 0 \<and>
   result_freq_card (INTELICH_setrate True ext0 hw_ready aui_novra world0) = Some 48000 \<and>
   pds_gettimeu ext0 (timer_reads world0) + 1000000 <
     pds_gettimeu ext0 (Suc (timer_reads world0) + 10000) \<and>
   INTELICH_setrate True ext0 hw_ready aui_unmeasured world0 \<noteq> None"
proof -
  have keep: "\<forall>a s p l. freq_card (snd (MDma_init_pcmoutbuf ext0 a s p l)) = freq_card a \<and>
                         bits_card (snd (MDma_init_pcmoutbuf ext0 a s p l)) = bits_card a"
    by (simp add: ext0_def)
  have a1: "card_private_data (aui_freq 96000) = Some (card0 DEVICE_INTEL)"
    and a2: "card_private_data (aui_freq 4000) = Some (card0 DEVICE_INTEL)"
    and a3: "card_private_data (aui_freq 22050) = Some (card0 DEVICE_INTEL)"
    and a4: "card_private_data aui_novra = Some card_novra"
    and a5: "card_private_data aui_unmeasured =
               Some ((card0 DEVICE_INTEL)\<lparr>ac97_clock_detected := 0\<rparr>)"
    by (simp_all add: aui_freq_def aui_open_def aui_novra_def aui_unmeasured_def aui0_def)
  have tm: "pds_gettimeu ext0 (timer_reads world0) + 1000000 <
     pds_gettimeu ext0 (Suc (timer_reads world0) + 10000)"
    by (simp add: ext0_def world0_def)
  have r1: "result_freq_card (INTELICH_setrate True ext0 hw_ready (aui_freq 96000) world0) = Some 48000"
    using setrate_clamps_frequency [OF a1 keep, of True hw_ready world0]
    by (auto simp: result_freq_card_def card0_def aui_freq_def)
  have r2: "result_freq_card (INTELICH_setrate True ext0 hw_ready (aui_freq 4000) world0) = Some 8000"
    using setrate_clamps_frequency [OF a2 keep, of True hw_ready world0]
    by (auto simp: result_freq_card_def card0_def aui_freq_def)
  have r3: "result_freq_card (INTELICH_setrate True ext0 hw_ready (aui_freq 22050) world0) = Some 22050"
    using setrate_clamps_frequency [OF a3 keep, of True hw_ready world0]
    by (auto simp: result_freq_card_def card0_def aui_freq_def)
  have r4: "result_freq_card (INTELICH_setrate True ext0 hw_ready aui_novra world0) = Some 48000"
    using setrate_clamps_frequency [OF a4 keep, of True hw_ready world0]
    by (auto simp: result_freq_card_def card_novra_def card0_def ext0_def)
  have r5: "INTELICH_setrate True ext0 hw_ready aui_unmeasured world0 \<noteq> None"
    using setrate_clamps_frequency [OF a5 keep, of True hw_ready world0] tm
    by blast
  from a1 a4 tm r1 r2 r3 r4 r5 show ?thesis
    by (simp add: card0_def card_novra_def aui_freq_def)
qed


end
